theory Spec2Isabelle
  imports Complex_Main "HOL-Library.Sublist"
begin

section \<open>Yoga recommendation backend: the scoring and filtering engine\<close>

text \<open>
  A shallow embedding of \<^verbatim>\<open>recommend_asanas\<close> and \<^verbatim>\<open>get_recommendations\<close> of
  \<^verbatim>\<open>recommendation_backend.py\<close>.

  Conventions of the model:
  \<^item> Python floats are modelled by \<^typ>\<open>real\<close>: arithmetic is exact, there is no NaN
    and no rounding error. \<^verbatim>\<open>round(x, 3)\<close> is rounding half to even at three decimals.
  \<^item> Python strings are \<^typ>\<open>string\<close>; \<^verbatim>\<open>str.lower\<close> maps the ASCII letters
    \<^verbatim>\<open>A-Z\<close> and leaves every other character alone.
  \<^item> The sentence-transformer (\<^verbatim>\<open>model.encode\<close>) and \<^verbatim>\<open>util.cos_sim\<close> are library
    code outside the repository: they are parameters of the model, functions that either
    return a value or raise. The type \<open>'v\<close> of embedding vectors is a parameter too.
  \<^item> Every call of \<^verbatim>\<open>model.encode\<close> is recorded, with its argument, in a log that is
    threaded through the functions as explicit state.
  \<^item> An exception is a value \<open>Inl e\<close> of the result.
  \<^item> A second copy of the engine runs over an embedder with an internal state that
    \<^verbatim>\<open>encode\<close> reads and changes; it is what the statement about repeated calls is about,
    and it agrees with the first when the embedder's answers do not depend on its state.
\<close>

subsection \<open>Strings\<close>

definition lower_char :: "char \<Rightarrow> char" where
  "lower_char c =
     (let n = (of_char c :: nat) in if 65 \<le> n \<and> n \<le> 90 then char_of (n + 32) else c)"

text \<open>\<^verbatim>\<open>s.lower()\<close>\<close>

definition lower :: "string \<Rightarrow> string" where
  "lower s = map lower_char s"

text \<open>\<^verbatim>\<open>p in t\<close> on strings: \<open>p\<close> occurs in \<open>t\<close> as a contiguous substring.\<close>

fun str_in :: "string \<Rightarrow> string \<Rightarrow> bool" where
  "str_in p [] = (p = [])"
| "str_in p (c # cs) = (prefix p (c # cs) \<or> str_in p cs)"

text \<open>\<^verbatim>\<open>sep.join(xs)\<close>\<close>

fun join :: "string \<Rightarrow> string list \<Rightarrow> string" where
  "join sep [] = []"
| "join sep [x] = x"
| "join sep (x # y # ys) = x @ sep @ join sep (y # ys)"

subsection \<open>Numbers\<close>

definition round_half_even :: "real \<Rightarrow> int" where
  "round_half_even y =
     (let f = \<lfloor>y\<rfloor>; d = y - of_int f in
      if d < 1 / 2 then f
      else if 1 / 2 < d then f + 1
      else if even f then f else f + 1)"

text \<open>\<^verbatim>\<open>round(x, ndigits)\<close> for a non-negative number of digits.\<close>

definition py_round :: "real \<Rightarrow> nat \<Rightarrow> real" where
  "py_round x ndigits = of_int (round_half_even (x * 10 ^ ndigits)) / 10 ^ ndigits"

subsection \<open>Data\<close>

datatype py_error = ValueError string | OtherException string

text \<open>The globals \<^verbatim>\<open>model\<close> (its method \<^verbatim>\<open>encode\<close>, called with
  \<^verbatim>\<open>normalize_embeddings=True\<close>) and the library function \<^verbatim>\<open>util.cos_sim(a, b).item()\<close>.\<close>

record 'v env =
  encode :: "string \<Rightarrow> py_error + 'v"
  cos_sim :: "'v \<Rightarrow> 'v \<Rightarrow> py_error + real"

text \<open>One row of the data frame \<^verbatim>\<open>df\<close>, with the columns the engine reads.\<close>

record 'v row =
  AName :: string
  Benefits :: string
  Contraindications :: string
  Benefits_emb :: 'v
  Contraindications_emb :: 'v
  Targeted_Physical_Problems_emb :: 'v
  Targeted_Mental_Problems_emb :: 'v

record user_input =
  age :: int
  height :: int
  weight :: int
  goals :: "string list"
  physical_issues :: "string list"
  mental_issues :: "string list"
  level :: string

text \<open>The dictionary \<^verbatim>\<open>user_emb\<close>, one vector per key.\<close>

record 'v user_emb =
  goals_emb :: 'v
  physical_issues_emb :: 'v
  mental_issues_emb :: 'v

text \<open>An entry of the list \<^verbatim>\<open>recommendations\<close>.\<close>

record recommendation =
  name :: string
  score :: real
  benefits :: string
  contraindications :: string

text \<open>The dictionary \<^verbatim>\<open>weights\<close>.\<close>

record weights_dict =
  goals_benefits :: int
  physical_benefits :: int
  mental_benefits :: int
  physical_match :: int
  mental_match :: int

definition weights :: weights_dict where
  "weights = \<lparr>goals_benefits = 4, physical_benefits = 4, mental_benefits = 4,
               physical_match = 2, mental_match = 2\<rparr>"

definition weights_values :: "weights_dict \<Rightarrow> int list" where
  "weights_values w =
     [goals_benefits w, physical_benefits w, mental_benefits w, physical_match w, mental_match w]"

definition total_weight :: int where
  "total_weight = sum_list (weights_values weights)"

text \<open>What the endpoint \<^verbatim>\<open>/recommend/\<close> answers: one of its two dictionaries, or an
  \<^verbatim>\<open>HTTPException\<close> with a status code and a detail.\<close>

datatype http_result =
    No_Recommendations "recommendation list" string string
  | Recommendations "recommendation list" nat string
  | HTTPException nat string

subsection \<open>Effects: the embedder's call log\<close>

type_synonym call_log = "string list"

definition call_encode :: "'v env \<Rightarrow> string \<Rightarrow> call_log \<Rightarrow> (py_error + 'v) \<times> call_log" where
  "call_encode M s calls = (encode M s, calls @ [s])"

text \<open>Sequencing of computations that may raise.\<close>

definition bind_err :: "'e + 'a \<Rightarrow> ('a \<Rightarrow> 'e + 'b) \<Rightarrow> 'e + 'b" where
  "bind_err m f = (case m of Inl e \<Rightarrow> Inl e | Inr a \<Rightarrow> f a)"

subsection \<open>The engine\<close>

text \<open>The inner loop over \<^verbatim>\<open>physical_issues + mental_issues\<close> (lines 94 to 102): the value
  of the flag \<^verbatim>\<open>discard\<close> when the loop ends, or the exception that left it.\<close>

fun discard_loop ::
  "'v env \<Rightarrow> string \<Rightarrow> 'v \<Rightarrow> string list \<Rightarrow> call_log \<Rightarrow> (py_error + bool) \<times> call_log" where
  "discard_loop M contra_text contra_emb [] calls = (Inr False, calls)"
| "discard_loop M contra_text contra_emb (issue # issues) calls =
     (let issue' = lower issue in
      if str_in issue' contra_text then (Inr True, calls)
      else
        (case call_encode M issue' calls of
           (Inl e, calls') \<Rightarrow> (Inl e, calls')
         | (Inr v, calls') \<Rightarrow>
             (case cos_sim M v contra_emb of
                Inl e \<Rightarrow> (Inl e, calls')
              | Inr c \<Rightarrow>
                  if 0.25 < c then (Inr True, calls')
                  else discard_loop M contra_text contra_emb issues calls')))"

text \<open>Lines 106 to 113: the score accumulated term by term, then divided by the total
  weight.\<close>

definition row_score :: "'v env \<Rightarrow> 'v user_emb \<Rightarrow> 'v row \<Rightarrow> py_error + real" where
  "row_score M ue r =
     (let score0 = 0 in
      bind_err (cos_sim M (goals_emb ue) (Benefits_emb r)) (\<lambda>c1.
      let score1 = score0 + of_int (goals_benefits weights) * c1 in
      bind_err (cos_sim M (physical_issues_emb ue) (Benefits_emb r)) (\<lambda>c2.
      let score2 = score1 + of_int (physical_benefits weights) * c2 in
      bind_err (cos_sim M (mental_issues_emb ue) (Benefits_emb r)) (\<lambda>c3.
      let score3 = score2 + of_int (mental_benefits weights) * c3 in
      bind_err (cos_sim M (physical_issues_emb ue) (Targeted_Physical_Problems_emb r)) (\<lambda>c4.
      let score4 = score3 + of_int (physical_match weights) * c4 in
      bind_err (cos_sim M (mental_issues_emb ue) (Targeted_Mental_Problems_emb r)) (\<lambda>c5.
      let score5 = score4 + of_int (mental_match weights) * c5 in
      Inr (score5 / of_int total_weight)))))))"

text \<open>The body of the inner \<^verbatim>\<open>try\<close> (lines 91 to 121) for one row: it raises, or it ends
  without a recommendation (\<^verbatim>\<open>continue\<close>, or a score that is not positive), or it appends
  one.\<close>

definition row_body ::
  "'v env \<Rightarrow> user_input \<Rightarrow> 'v user_emb \<Rightarrow> 'v row \<Rightarrow> call_log
     \<Rightarrow> (py_error + recommendation option) \<times> call_log" where
  "row_body M user_profile ue r calls =
     (let contra_text = lower (Contraindications r) in
      case discard_loop M contra_text (Contraindications_emb r)
             (physical_issues user_profile @ mental_issues user_profile) calls of
        (Inl e, calls') \<Rightarrow> (Inl e, calls')
      | (Inr True, calls') \<Rightarrow> (Inr None, calls')
      | (Inr False, calls') \<Rightarrow>
          (case row_score M ue r of
             Inl e \<Rightarrow> (Inl e, calls')
           | Inr s \<Rightarrow>
               if 0 < s then
                 (Inr (Some \<lparr>name = AName r, score = py_round s 3, benefits = Benefits r,
                             contraindications = Contraindications r\<rparr>), calls')
               else (Inr None, calls')))"

text \<open>The loop \<^verbatim>\<open>for _, row in df.iterrows()\<close>; the handler of the inner \<^verbatim>\<open>try\<close> logs a
  warning and continues with the next row.\<close>

fun iterrows_loop ::
  "'v env \<Rightarrow> user_input \<Rightarrow> 'v user_emb \<Rightarrow> 'v row list \<Rightarrow> recommendation list \<Rightarrow> call_log
     \<Rightarrow> recommendation list \<times> call_log" where
  "iterrows_loop M user_profile ue [] recommendations calls = (recommendations, calls)"
| "iterrows_loop M user_profile ue (r # rows) recommendations calls =
     (case row_body M user_profile ue r calls of
        (Inr (Some rec), calls') \<Rightarrow>
          iterrows_loop M user_profile ue rows (recommendations @ [rec]) calls'
      | (Inr None, calls') \<Rightarrow> iterrows_loop M user_profile ue rows recommendations calls'
      | (Inl e, calls') \<Rightarrow> iterrows_loop M user_profile ue rows recommendations calls')"

text \<open>\<^verbatim>\<open>sorted(xs, key=f, reverse=True)\<close>: a stable sort on the reversed list, reversed
  again, so that entries with equal keys keep their order.\<close>

definition sorted_reverse :: "('a \<Rightarrow> 'k::linorder) \<Rightarrow> 'a list \<Rightarrow> 'a list" where
  "sorted_reverse f xs = rev (sort_key f (rev xs))"

definition missing_fields_msg :: string where
  "missing_fields_msg = ''Missing required fields: goals, physical_issues, or mental_issues''"

text \<open>\<^verbatim>\<open>recommend_asanas(user_profile)\<close>, over the globals \<^verbatim>\<open>model\<close> and \<^verbatim>\<open>df\<close>. The outer
  handler logs the exception and raises it again.\<close>

definition recommend_asanas ::
  "'v env \<Rightarrow> 'v row list \<Rightarrow> user_input \<Rightarrow> call_log
     \<Rightarrow> (py_error + recommendation list) \<times> call_log" where
  "recommend_asanas M df user_profile calls =
     (if goals user_profile = [] \<or> physical_issues user_profile = []
         \<or> mental_issues user_profile = []
      then (Inl (ValueError missing_fields_msg), calls)
      else
        (case call_encode M (join '' '' (goals user_profile)) calls of
           (Inl e, calls1) \<Rightarrow> (Inl e, calls1)
         | (Inr g, calls1) \<Rightarrow>
        (case call_encode M (join '' '' (physical_issues user_profile)) calls1 of
           (Inl e, calls2) \<Rightarrow> (Inl e, calls2)
         | (Inr p, calls2) \<Rightarrow>
        (case call_encode M (join '' '' (mental_issues user_profile)) calls2 of
           (Inl e, calls3) \<Rightarrow> (Inl e, calls3)
         | (Inr m, calls3) \<Rightarrow>
             (let ue = \<lparr>goals_emb = g, physical_issues_emb = p, mental_issues_emb = m\<rparr>;
                  (recommendations, calls4) = iterrows_loop M user_profile ue df [] calls3;
                  recommendations' = sorted_reverse score recommendations
              in (Inr (take 10 recommendations'), calls4))))))"

definition no_poses_msg :: string where
  "no_poses_msg =
     ''No suitable yoga poses found for your profile. Please try adjusting your goals or issues.''"

definition internal_error_msg :: string where
  "internal_error_msg = ''Internal server error occurred while generating recommendations''"

text \<open>The endpoint \<^verbatim>\<open>get_recommendations(user_input)\<close>.\<close>

definition get_recommendations ::
  "'v env \<Rightarrow> 'v row list \<Rightarrow> user_input \<Rightarrow> call_log \<Rightarrow> http_result \<times> call_log" where
  "get_recommendations M df user_input calls =
     (case recommend_asanas M df user_input calls of
        (Inr recommended_asanas, calls') \<Rightarrow>
          if recommended_asanas = []
          then (No_Recommendations [] no_poses_msg ''success'', calls')
          else (Recommendations recommended_asanas (length recommended_asanas) ''success'', calls')
      | (Inl (ValueError msg), calls') \<Rightarrow> (HTTPException 400 msg, calls')
      | (Inl (OtherException msg), calls') \<Rightarrow> (HTTPException 500 internal_error_msg, calls'))"

subsection \<open>The engine over an embedder with internal state\<close>

text \<open>The model above takes \<^verbatim>\<open>model.encode\<close> as a function of its argument. Here the global
  \<^verbatim>\<open>model\<close> is an object with an internal state of its own: a call of \<^verbatim>\<open>encode\<close> reads that
  state, answers, and leaves a new state. The process state between two requests is the
  state of the model together with the global data frame \<^verbatim>\<open>df\<close>. The functions below are
  the same code, line by line, over this state; \<^verbatim>\<open>util.cos_sim\<close> stays a function of its
  two arguments.\<close>

record ('v, 's) stateful_model =
  encode_step :: "'s \<Rightarrow> string \<Rightarrow> (py_error + 'v) \<times> 's"
  cosine :: "'v \<Rightarrow> 'v \<Rightarrow> py_error + real"

record ('v, 's) world =
  model_state :: 's
  data_frame :: "'v row list"

text \<open>What the embedder answers when it is asked in the state \<open>st\<close>.\<close>

definition env_at :: "('v, 's) stateful_model \<Rightarrow> 's \<Rightarrow> 'v env" where
  "env_at Ms st = \<lparr>encode = (\<lambda>x. fst (encode_step Ms st x)), cos_sim = cosine Ms\<rparr>"

fun discard_loop_st ::
  "('v, 's) stateful_model \<Rightarrow> string \<Rightarrow> 'v \<Rightarrow> string list \<Rightarrow> 's \<Rightarrow> (py_error + bool) \<times> 's" where
  "discard_loop_st Ms contra_text contra_emb [] st = (Inr False, st)"
| "discard_loop_st Ms contra_text contra_emb (issue # issues) st =
     (let issue' = lower issue in
      if str_in issue' contra_text then (Inr True, st)
      else
        (case encode_step Ms st issue' of
           (Inl e, st') \<Rightarrow> (Inl e, st')
         | (Inr v, st') \<Rightarrow>
             (case cosine Ms v contra_emb of
                Inl e \<Rightarrow> (Inl e, st')
              | Inr c \<Rightarrow>
                  if 0.25 < c then (Inr True, st')
                  else discard_loop_st Ms contra_text contra_emb issues st')))"

text \<open>The score of a row is computed by \<^const>\<open>row_score\<close>, which calls \<^verbatim>\<open>cos_sim\<close> only.\<close>

definition row_body_st ::
  "('v, 's) stateful_model \<Rightarrow> user_input \<Rightarrow> 'v user_emb \<Rightarrow> 'v row \<Rightarrow> 's
     \<Rightarrow> (py_error + recommendation option) \<times> 's" where
  "row_body_st Ms user_profile ue r st =
     (let contra_text = lower (Contraindications r) in
      case discard_loop_st Ms contra_text (Contraindications_emb r)
             (physical_issues user_profile @ mental_issues user_profile) st of
        (Inl e, st') \<Rightarrow> (Inl e, st')
      | (Inr True, st') \<Rightarrow> (Inr None, st')
      | (Inr False, st') \<Rightarrow>
          (case row_score (env_at Ms st') ue r of
             Inl e \<Rightarrow> (Inl e, st')
           | Inr s \<Rightarrow>
               if 0 < s then
                 (Inr (Some \<lparr>name = AName r, score = py_round s 3, benefits = Benefits r,
                             contraindications = Contraindications r\<rparr>), st')
               else (Inr None, st')))"

fun iterrows_loop_st ::
  "('v, 's) stateful_model \<Rightarrow> user_input \<Rightarrow> 'v user_emb \<Rightarrow> 'v row list \<Rightarrow> recommendation list
     \<Rightarrow> 's \<Rightarrow> recommendation list \<times> 's" where
  "iterrows_loop_st Ms user_profile ue [] recommendations st = (recommendations, st)"
| "iterrows_loop_st Ms user_profile ue (r # rows) recommendations st =
     (case row_body_st Ms user_profile ue r st of
        (Inr (Some rec), st') \<Rightarrow>
          iterrows_loop_st Ms user_profile ue rows (recommendations @ [rec]) st'
      | (Inr None, st') \<Rightarrow> iterrows_loop_st Ms user_profile ue rows recommendations st'
      | (Inl e, st') \<Rightarrow> iterrows_loop_st Ms user_profile ue rows recommendations st')"

text \<open>\<^verbatim>\<open>recommend_asanas(user_profile)\<close>: it reads the global data frame and does not assign
  it; the state of the model is what the calls of \<^verbatim>\<open>encode\<close> leave.\<close>

definition recommend_asanas_st ::
  "('v, 's) stateful_model \<Rightarrow> user_input \<Rightarrow> ('v, 's) world
     \<Rightarrow> (py_error + recommendation list) \<times> ('v, 's) world" where
  "recommend_asanas_st Ms user_profile w =
     (if goals user_profile = [] \<or> physical_issues user_profile = []
         \<or> mental_issues user_profile = []
      then (Inl (ValueError missing_fields_msg), w)
      else
        (case encode_step Ms (model_state w) (join '' '' (goals user_profile)) of
           (Inl e, st1) \<Rightarrow> (Inl e, w\<lparr>model_state := st1\<rparr>)
         | (Inr g, st1) \<Rightarrow>
        (case encode_step Ms st1 (join '' '' (physical_issues user_profile)) of
           (Inl e, st2) \<Rightarrow> (Inl e, w\<lparr>model_state := st2\<rparr>)
         | (Inr p, st2) \<Rightarrow>
        (case encode_step Ms st2 (join '' '' (mental_issues user_profile)) of
           (Inl e, st3) \<Rightarrow> (Inl e, w\<lparr>model_state := st3\<rparr>)
         | (Inr m, st3) \<Rightarrow>
             (let ue = \<lparr>goals_emb = g, physical_issues_emb = p, mental_issues_emb = m\<rparr>;
                  (recommendations, st4) =
                     iterrows_loop_st Ms user_profile ue (data_frame w) [] st3;
                  recommendations' = sorted_reverse score recommendations
              in (Inr (take 10 recommendations'), w\<lparr>model_state := st4\<rparr>))))))"

definition get_recommendations_st ::
  "('v, 's) stateful_model \<Rightarrow> user_input \<Rightarrow> ('v, 's) world \<Rightarrow> http_result \<times> ('v, 's) world" where
  "get_recommendations_st Ms user_input w =
     (case recommend_asanas_st Ms user_input w of
        (Inr recommended_asanas, w') \<Rightarrow>
          if recommended_asanas = []
          then (No_Recommendations [] no_poses_msg ''success'', w')
          else (Recommendations recommended_asanas (length recommended_asanas) ''success'', w')
      | (Inl (ValueError msg), w') \<Rightarrow> (HTTPException 400 msg, w')
      | (Inl (OtherException msg), w') \<Rightarrow> (HTTPException 500 internal_error_msg, w'))"

subsection \<open>Derived notions\<close>

text \<open>What one row contributes to the list \<^verbatim>\<open>recommendations\<close>: the entry it appends, if it
  appends one. A row that is discarded, that scores no more than zero or whose evaluation
  raises contributes nothing.\<close>

definition row_candidate ::
  "'v env \<Rightarrow> user_input \<Rightarrow> 'v user_emb \<Rightarrow> 'v row \<Rightarrow> recommendation option" where
  "row_candidate M user_profile ue r =
     (case fst (row_body M user_profile ue r []) of Inr (Some rec) \<Rightarrow> Some rec | _ \<Rightarrow> None)"

text \<open>The candidates of a catalog, in catalog order.\<close>

definition candidates ::
  "'v env \<Rightarrow> user_input \<Rightarrow> 'v user_emb \<Rightarrow> 'v row list \<Rightarrow> recommendation list" where
  "candidates M user_profile ue df = List.map_filter (row_candidate M user_profile ue) df"

text \<open>The two tests of the exclusion filter for one phrase, already lower-cased, against a
  row.\<close>

definition lexical_match :: "string \<Rightarrow> 'v row \<Rightarrow> bool" where
  "lexical_match q r = str_in q (lower (Contraindications r))"

definition semantic_match :: "'v env \<Rightarrow> string \<Rightarrow> 'v row \<Rightarrow> bool" where
  "semantic_match M q r =
     (case encode M q of
        Inl e \<Rightarrow> False
      | Inr v \<Rightarrow> (case cos_sim M v (Contraindications_emb r) of Inl e \<Rightarrow> False | Inr c \<Rightarrow> 0.25 < c))"

text \<open>The weighted sum of the five cosines, divided by 16.\<close>

definition weighted_average :: "real \<Rightarrow> real \<Rightarrow> real \<Rightarrow> real \<Rightarrow> real \<Rightarrow> real" where
  "weighted_average c1 c2 c3 c4 c5 = (4 * c1 + 4 * c2 + 4 * c3 + 2 * c4 + 2 * c5) / 16"

subsection \<open>Example inputs\<close>

text \<open>A mock embedder that returns its argument, and a table of cosines over these labels.
  A row whose embedding is the label \<open>malformed\<close> makes \<^verbatim>\<open>cos_sim\<close> raise.\<close>

definition example_cos :: "string \<Rightarrow> string \<Rightarrow> py_error + real" where
  "example_cos a b =
     (if b = ''malformed'' then Inl (OtherException ''cannot convert embedding'')
      else if a = ''relax'' \<and> b = ''calms mind'' then Inr 0.8
      else if a = ''relax'' \<and> b = ''stretches spine'' then Inr 0.4
      else Inr 0)"

definition example_env :: "string env" where
  "example_env = \<lparr>encode = (\<lambda>s. Inr s), cos_sim = example_cos\<rparr>"

definition example_profile :: user_input where
  "example_profile =
     \<lparr>age = 30, height = 170, weight = 65, goals = [''relax''],
      physical_issues = [''back pain''], mental_issues = [''anxiety''], level = ''beginner''\<rparr>"

definition example_row :: "string row" where
  "example_row =
     \<lparr>AName = ''Balasana'', Benefits = ''calms mind'', Contraindications = ''knee injury'',
      Benefits_emb = ''calms mind'', Contraindications_emb = ''knee injury'',
      Targeted_Physical_Problems_emb = ''hips'', Targeted_Mental_Problems_emb = ''stress''\<rparr>"

definition spine_row :: "string row" where
  "spine_row =
     \<lparr>AName = ''Bhujangasana'', Benefits = ''stretches spine'', Contraindications = ''pregnancy'',
      Benefits_emb = ''stretches spine'', Contraindications_emb = ''pregnancy'',
      Targeted_Physical_Problems_emb = ''spine'', Targeted_Mental_Problems_emb = ''fatigue''\<rparr>"

definition calm_row :: "string row" where
  "calm_row =
     \<lparr>AName = ''Sukhasana'', Benefits = ''calms mind'', Contraindications = ''Neck strain'',
      Benefits_emb = ''calms mind'', Contraindications_emb = ''neck strain'',
      Targeted_Physical_Problems_emb = ''hips'', Targeted_Mental_Problems_emb = ''stress''\<rparr>"

definition back_row :: "string row" where
  "back_row =
     \<lparr>AName = ''Halasana'', Benefits = ''calms mind'', Contraindications = ''Severe Back Pain'',
      Benefits_emb = ''calms mind'', Contraindications_emb = ''severe back pain'',
      Targeted_Physical_Problems_emb = ''spine'', Targeted_Mental_Problems_emb = ''stress''\<rparr>"

definition malformed_row :: "string row" where
  "malformed_row =
     \<lparr>AName = ''Virasana'', Benefits = ''calms mind'', Contraindications = ''ankle injury'',
      Benefits_emb = ''malformed'', Contraindications_emb = ''ankle injury'',
      Targeted_Physical_Problems_emb = ''knees'', Targeted_Mental_Problems_emb = ''stress''\<rparr>"

text \<open>An embedder under which every cosine is \<open>0.0004\<close>.\<close>

definition faint_env :: "string env" where
  "faint_env = \<lparr>encode = (\<lambda>s. Inr s), cos_sim = (\<lambda>a b. Inr 0.0004)\<rparr>"

text \<open>Two models with a state, the number of calls of \<^verbatim>\<open>encode\<close> made so far. The first
  answers with its argument whatever the count is. The second answers only its first five
  calls and raises from then on: what it answers for a string depends on its state.\<close>

definition counting_model :: "(string, nat) stateful_model" where
  "counting_model = \<lparr>encode_step = (\<lambda>n x. (Inr x, Suc n)), cosine = example_cos\<rparr>"

definition exhausting_model :: "(string, nat) stateful_model" where
  "exhausting_model =
     \<lparr>encode_step = (\<lambda>n x. (if n < 5 then Inr x else Inl (OtherException ''exhausted''), Suc n)),
      cosine = example_cos\<rparr>"

section \<open>Properties\<close>

subsection \<open>Strings and numbers\<close>

lemma lower_char_Char:
  "lower_char (Char b0 b1 b2 b3 b4 b5 b6 b7) =
     (if \<not> b7 \<and> b6 \<and> \<not> b5 \<and> (b0 \<or> b1 \<or> b2 \<or> b3 \<or> b4) \<and> \<not> (b4 \<and> b3 \<and> (b2 \<or> (b1 \<and> b0)))
      then Char b0 b1 b2 b3 b4 True b6 b7 else Char b0 b1 b2 b3 b4 b5 b6 b7)"
  by (cases b0; cases b1; cases b2; cases b3; cases b4; cases b5; cases b6; cases b7;
      simp add: lower_char_def char_of_def bit_Suc_0_iff)

lemma str_in_sublist: "str_in p t \<longleftrightarrow> sublist p t"
  by (induction t) (auto simp: sublist_Cons_right)

lemma str_in_Nil: "str_in [] t"
  by (simp add: str_in_sublist)

lemma total_weight_16: "total_weight = 16"
  by (simp add: total_weight_def weights_values_def weights_def)

lemma round_half_even_nonneg: "0 \<le> y \<Longrightarrow> 0 \<le> round_half_even y"
  by (auto simp: round_half_even_def Let_def)

lemma round_half_even_le: "y \<le> of_int n \<Longrightarrow> round_half_even y \<le> n"
  unfolding round_half_even_def Let_def
  by (auto simp: floor_le_iff le_floor_iff)

lemma py_round_nonneg: "0 \<le> x \<Longrightarrow> 0 \<le> py_round x n"
  by (simp add: py_round_def round_half_even_nonneg)

lemma py_round_le_1: "x \<le> 1 \<Longrightarrow> py_round x 3 \<le> 1"
  using round_half_even_le[of "x * 1000" 1000] by (simp add: py_round_def)

subsection \<open>The result does not depend on the call log\<close>

lemma discard_loop_fst:
  "fst (discard_loop M ct ce issues c) = fst (discard_loop M ct ce issues c')"
  by (induction issues arbitrary: c c')
     (auto simp: Let_def call_encode_def split: sum.splits prod.splits)

lemma row_body_fst: "fst (row_body M p ue r c) = fst (row_body M p ue r c')"
proof -
  let ?d = "\<lambda>c. discard_loop M (lower (Contraindications r)) (Contraindications_emb r)
                  (physical_issues p @ mental_issues p) c"
  have "fst (?d c) = fst (?d c')" by (rule discard_loop_fst)
  then show ?thesis
    by (cases "?d c"; cases "?d c'")
       (auto simp: row_body_def Let_def split: sum.splits bool.splits)
qed

lemma row_candidate_eq:
  "row_candidate M p ue r =
     (case fst (row_body M p ue r c) of Inr (Some rec) \<Rightarrow> Some rec | _ \<Rightarrow> None)"
  unfolding row_candidate_def using row_body_fst[of M p ue r "[]" c] by simp

subsection \<open>The loop over the catalog collects the candidates in order\<close>

lemma iterrows_loop_fst:
  "fst (iterrows_loop M p ue rows recs c) = recs @ candidates M p ue rows"
proof (induction rows arbitrary: recs c)
  case Nil
  then show ?case by (simp add: candidates_def)
next
  case (Cons r rows)
  show ?case
  proof (cases "row_body M p ue r c")
    case (Pair res c')
    then have rc: "row_candidate M p ue r = (case res of Inr (Some rec) \<Rightarrow> Some rec | _ \<Rightarrow> None)"
      using row_candidate_eq[of M p ue r c] by simp
    show ?thesis
      using Pair rc Cons.IH
      by (auto simp: candidates_def split: sum.splits option.splits)
  qed
qed

lemma recommend_asanas_invalid:
  "goals p = [] \<or> physical_issues p = [] \<or> mental_issues p = [] \<Longrightarrow>
   recommend_asanas M df p c = (Inl (ValueError missing_fields_msg), c)"
  by (simp add: recommend_asanas_def)

lemma recommend_asanas_ok:
  assumes "goals p \<noteq> []" "physical_issues p \<noteq> []" "mental_issues p \<noteq> []"
    and "encode M (join '' '' (goals p)) = Inr g"
    and "encode M (join '' '' (physical_issues p)) = Inr ph"
    and "encode M (join '' '' (mental_issues p)) = Inr m"
  shows "fst (recommend_asanas M df p c) =
           Inr (take 10 (sorted_reverse score
             (candidates M p \<lparr>goals_emb = g, physical_issues_emb = ph, mental_issues_emb = m\<rparr> df)))"
proof -
  let ?ue = "\<lparr>goals_emb = g, physical_issues_emb = ph, mental_issues_emb = m\<rparr>"
  let ?c3 = "((c @ [join '' '' (goals p)]) @ [join '' '' (physical_issues p)])
               @ [join '' '' (mental_issues p)]"
  obtain recs c4 where it: "iterrows_loop M p ?ue df [] ?c3 = (recs, c4)"
    by (cases "iterrows_loop M p ?ue df [] ?c3")
  then have "recs = candidates M p ?ue df"
    using iterrows_loop_fst[of M p ?ue df "[]" ?c3] by simp
  with it assms show ?thesis
    by (simp add: recommend_asanas_def call_encode_def)
qed

lemma recommend_asanas_cases:
  assumes "fst (recommend_asanas M df p c) = Inr out"
  obtains g ph m where "goals p \<noteq> []" "physical_issues p \<noteq> []" "mental_issues p \<noteq> []"
    "encode M (join '' '' (goals p)) = Inr g"
    "encode M (join '' '' (physical_issues p)) = Inr ph"
    "encode M (join '' '' (mental_issues p)) = Inr m"
    "out = take 10 (sorted_reverse score
             (candidates M p \<lparr>goals_emb = g, physical_issues_emb = ph, mental_issues_emb = m\<rparr> df))"
proof -
  from assms have v: "goals p \<noteq> []" "physical_issues p \<noteq> []" "mental_issues p \<noteq> []"
    by (auto simp: recommend_asanas_def split: if_splits)
  from assms v obtain g where g: "encode M (join '' '' (goals p)) = Inr g"
    by (cases "encode M (join '' '' (goals p))")
       (auto simp: recommend_asanas_def call_encode_def)
  from assms v g obtain ph where ph: "encode M (join '' '' (physical_issues p)) = Inr ph"
    by (cases "encode M (join '' '' (physical_issues p))")
       (auto simp: recommend_asanas_def call_encode_def)
  from assms v g ph obtain m where m: "encode M (join '' '' (mental_issues p)) = Inr m"
    by (cases "encode M (join '' '' (mental_issues p))")
       (auto simp: recommend_asanas_def call_encode_def)
  from recommend_asanas_ok[OF v g ph m, of df c] assms
  have "out = take 10 (sorted_reverse score
             (candidates M p \<lparr>goals_emb = g, physical_issues_emb = ph, mental_issues_emb = m\<rparr> df))"
    by simp
  with v g ph m that show thesis by blast
qed

subsection \<open>Sorting\<close>

lemma sorted_reverse_sorted: "sorted_wrt (\<lambda>a b. f b \<le> f a) (sorted_reverse f xs)"
proof -
  have "sorted (map f (sort_key f (rev xs)))" by simp
  then have "sorted_wrt (\<lambda>a b. f a \<le> f b) (sort_key f (rev xs))"
    by (simp add: sorted_map)
  then show ?thesis
    by (simp add: sorted_reverse_def sorted_wrt_rev)
qed

lemma sorted_reverse_stable:
  "filter (\<lambda>y. f y = k) (sorted_reverse f xs) = filter (\<lambda>y. f y = k) xs"
  by (simp add: sorted_reverse_def rev_filter[symmetric] sort_key_stable)

lemma set_sorted_reverse: "set (sorted_reverse f xs) = set xs"
  by (simp add: sorted_reverse_def)

subsection \<open>One row\<close>

lemmas example_defs = example_env_def example_cos_def example_profile_def example_row_def
  spine_row_def calm_row_def back_row_def malformed_row_def faint_env_def

lemma row_score_formula:
  assumes "cos_sim M (goals_emb ue) (Benefits_emb r) = Inr c1"
    and "cos_sim M (physical_issues_emb ue) (Benefits_emb r) = Inr c2"
    and "cos_sim M (mental_issues_emb ue) (Benefits_emb r) = Inr c3"
    and "cos_sim M (physical_issues_emb ue) (Targeted_Physical_Problems_emb r) = Inr c4"
    and "cos_sim M (mental_issues_emb ue) (Targeted_Mental_Problems_emb r) = Inr c5"
  shows "row_score M ue r = Inr (weighted_average c1 c2 c3 c4 c5)"
  using assms
  by (simp add: row_score_def bind_err_def weights_def total_weight_16 weighted_average_def)

lemma row_score_Inr:
  assumes "row_score M ue r = Inr s"
  shows "\<exists>c1 c2 c3 c4 c5.
           cos_sim M (goals_emb ue) (Benefits_emb r) = Inr c1
         \<and> cos_sim M (physical_issues_emb ue) (Benefits_emb r) = Inr c2
         \<and> cos_sim M (mental_issues_emb ue) (Benefits_emb r) = Inr c3
         \<and> cos_sim M (physical_issues_emb ue) (Targeted_Physical_Problems_emb r) = Inr c4
         \<and> cos_sim M (mental_issues_emb ue) (Targeted_Mental_Problems_emb r) = Inr c5
         \<and> s = weighted_average c1 c2 c3 c4 c5"
  using assms
  by (auto simp: row_score_def bind_err_def weights_def total_weight_16 weighted_average_def
           split: sum.splits)

lemma row_body_survivor:
  assumes "fst (discard_loop M (lower (Contraindications r)) (Contraindications_emb r)
                  (physical_issues p @ mental_issues p) calls) = Inr False"
    and "row_score M ue r = Inr s"
  shows "fst (row_body M p ue r calls) =
           Inr (if 0 < s
                then Some \<lparr>name = AName r, score = py_round s 3, benefits = Benefits r,
                           contraindications = Contraindications r\<rparr>
                else None)"
  using assms
  by (cases "discard_loop M (lower (Contraindications r)) (Contraindications_emb r)
               (physical_issues p @ mental_issues p) calls")
     (simp add: row_body_def)

lemma row_body_discarded:
  assumes "fst (discard_loop M (lower (Contraindications r)) (Contraindications_emb r)
                  (physical_issues p @ mental_issues p) calls) = Inr True"
  shows "fst (row_body M p ue r calls) = Inr None"
  using assms
  by (cases "discard_loop M (lower (Contraindications r)) (Contraindications_emb r)
               (physical_issues p @ mental_issues p) calls")
     (simp add: row_body_def)

lemma row_body_Some:
  assumes "fst (row_body M p ue r calls) = Inr (Some rec)"
  shows "fst (discard_loop M (lower (Contraindications r)) (Contraindications_emb r)
                  (physical_issues p @ mental_issues p) calls) = Inr False
       \<and> (\<exists>s. row_score M ue r = Inr s \<and> 0 < s
              \<and> rec = \<lparr>name = AName r, score = py_round s 3, benefits = Benefits r,
                        contraindications = Contraindications r\<rparr>)"
  using assms
  by (cases "discard_loop M (lower (Contraindications r)) (Contraindications_emb r)
               (physical_issues p @ mental_issues p) calls")
     (auto simp: row_body_def split: sum.splits bool.splits if_splits)

lemma single_row_scenario:
  assumes "goals p = [''relax'']" "physical_issues p = [''back pain'']"
    "mental_issues p = [''anxiety'']"
    "Benefits r = ''calms mind''" "Contraindications r = ''knee injury''"
    "encode M ''relax'' = Inr g" "encode M ''back pain'' = Inr ph" "encode M ''anxiety'' = Inr m"
    "cos_sim M ph (Contraindications_emb r) = Inr s1" "s1 \<le> 0.25"
    "cos_sim M m (Contraindications_emb r) = Inr s2" "s2 \<le> 0.25"
    "cos_sim M g (Benefits_emb r) = Inr 0.8"
    "cos_sim M ph (Benefits_emb r) = Inr 0"
    "cos_sim M m (Benefits_emb r) = Inr 0"
    "cos_sim M ph (Targeted_Physical_Problems_emb r) = Inr 0"
    "cos_sim M m (Targeted_Mental_Problems_emb r) = Inr 0"
  shows "fst (recommend_asanas M [r] p calls) =
           Inr [\<lparr>name = AName r, score = 0.2, benefits = ''calms mind'',
                 contraindications = ''knee injury''\<rparr>]"
proof -
  let ?ue = "\<lparr>goals_emb = g, physical_issues_emb = ph, mental_issues_emb = m\<rparr>"
  have sc: "row_score M ?ue r = Inr (weighted_average 0.8 0 0 0 0)"
    by (rule row_score_formula) (simp_all add: assms)
  have lw: "lower ''back pain'' = ''back pain''" "lower ''anxiety'' = ''anxiety''"
    "lower ''knee injury'' = ''knee injury''"
    by (simp_all add: lower_def lower_char_Char)
  have d: "fst (discard_loop M (lower (Contraindications r)) (Contraindications_emb r)
                  (physical_issues p @ mental_issues p) []) = Inr False"
    using assms by (simp add: lw call_encode_def)
  have "fst (row_body M p ?ue r []) =
          Inr (Some \<lparr>name = AName r, score = 0.2, benefits = ''calms mind'',
                     contraindications = ''knee injury''\<rparr>)"
    using row_body_survivor[OF d sc] assms(4,5)
    by (simp add: weighted_average_def py_round_def round_half_even_def)
  then have "candidates M p ?ue [r] =
          [\<lparr>name = AName r, score = 0.2, benefits = ''calms mind'',
            contraindications = ''knee injury''\<rparr>]"
    by (simp add: candidates_def row_candidate_def)
  moreover have "fst (recommend_asanas M [r] p calls) =
      Inr (take 10 (sorted_reverse score (candidates M p ?ue [r])))"
    by (rule recommend_asanas_ok) (simp_all add: assms)
  ultimately show ?thesis by (simp add: sorted_reverse_def)
qed

lemma example_catalog_output: "fst (recommend_asanas example_env [spine_row, example_row, back_row, malformed_row, calm_row] example_profile [])
  = Inr [\<lparr>name = ''Balasana'', score = 0.2, benefits = ''calms mind'', contraindications = ''knee injury''\<rparr>,
         \<lparr>name = ''Sukhasana'', score = 0.2, benefits = ''calms mind'', contraindications = ''Neck strain''\<rparr>,
         \<lparr>name = ''Bhujangasana'', score = 0.1, benefits = ''stretches spine'', contraindications = ''pregnancy''\<rparr>]"
  by (simp add: recommend_asanas_def call_encode_def example_defs row_body_def row_score_def bind_err_def
      lower_def lower_char_Char weights_def total_weight_16 py_round_def round_half_even_def
      sorted_reverse_def Let_def)

subsection \<open>The exclusion filter and the candidates\<close>

lemma discard_loop_Inr:
  "fst (discard_loop M (lower (Contraindications r)) (Contraindications_emb r) issues calls) = Inr d
   \<Longrightarrow> d = (\<exists>q\<in>set issues. lexical_match (lower q) r \<or> semantic_match M (lower q) r)"
proof (induction issues arbitrary: calls)
  case Nil
  then show ?case by simp
next
  case (Cons q issues)
  show ?case
  proof (cases "lexical_match (lower q) r")
    case True
    with Cons.prems show ?thesis by (simp add: lexical_match_def)
  next
    case nolex: False
    show ?thesis
    proof (cases "encode M (lower q)")
      case (Inl e)
      with nolex Cons.prems show ?thesis
        by (simp add: lexical_match_def call_encode_def)
    next
      case (Inr v)
      show ?thesis
      proof (cases "cos_sim M v (Contraindications_emb r)")
        case (Inl e)
        with nolex Inr Cons.prems show ?thesis
          by (simp add: lexical_match_def call_encode_def)
      next
        case c: (Inr c)
        show ?thesis
        proof (cases "0.25 < c")
          case True
          with nolex Inr c Cons.prems show ?thesis
            by (simp add: lexical_match_def semantic_match_def call_encode_def)
        next
          case False
          with nolex Inr c Cons.prems
          have "fst (discard_loop M (lower (Contraindications r)) (Contraindications_emb r)
                       issues (calls @ [lower q])) = Inr d"
            by (simp add: lexical_match_def call_encode_def)
          from Cons.IH[OF this] nolex Inr c False show ?thesis
            by (simp add: semantic_match_def)
        qed
      qed
    qed
  qed
qed

lemma discard_loop_total:
  "\<forall>q\<in>set issues. \<exists>v c. encode M (lower q) = Inr v \<and> cos_sim M v ce = Inr c
   \<Longrightarrow> \<exists>d. fst (discard_loop M ct ce issues calls) = Inr d"
proof (induction issues arbitrary: calls)
  case Nil
  then show ?case by auto
next
  case (Cons q issues)
  then obtain v c where vc: "encode M (lower q) = Inr v" "cos_sim M v ce = Inr c"
    by auto
  from Cons have "\<exists>d. fst (discard_loop M ct ce issues (calls @ [lower q])) = Inr d"
    by simp
  with vc show ?case by (auto simp: call_encode_def Let_def)
qed

lemma row_candidate_Some:
  "row_candidate M p ue r = Some rec \<Longrightarrow> fst (row_body M p ue r calls) = Inr (Some rec)"
  using row_candidate_eq[of M p ue r calls]
  by (auto split: sum.splits option.splits)

lemma candidates_mem:
  "rec \<in> set (candidates M p ue df) \<Longrightarrow> \<exists>r\<in>set df. row_candidate M p ue r = Some rec"
  by (induction df) (auto simp: candidates_def split: option.splits)

lemma output_subset_candidates:
  assumes "fst (recommend_asanas M df p calls) = Inr out" "rec \<in> set out"
  shows "\<exists>g ph m r. encode M (join '' '' (goals p)) = Inr g
           \<and> encode M (join '' '' (physical_issues p)) = Inr ph
           \<and> encode M (join '' '' (mental_issues p)) = Inr m
           \<and> r \<in> set df
           \<and> row_candidate M p \<lparr>goals_emb = g, physical_issues_emb = ph, mental_issues_emb = m\<rparr> r
               = Some rec"
proof -
  from assms(1) obtain g ph m where
    e: "encode M (join '' '' (goals p)) = Inr g"
       "encode M (join '' '' (physical_issues p)) = Inr ph"
       "encode M (join '' '' (mental_issues p)) = Inr m"
    and out: "out = take 10 (sorted_reverse score
             (candidates M p \<lparr>goals_emb = g, physical_issues_emb = ph, mental_issues_emb = m\<rparr> df))"
    by (rule recommend_asanas_cases)
  from assms(2) have "rec \<in> set (sorted_reverse score
             (candidates M p \<lparr>goals_emb = g, physical_issues_emb = ph, mental_issues_emb = m\<rparr> df))"
    unfolding out by (rule in_set_takeD)
  then have "rec \<in> set (candidates M p
      \<lparr>goals_emb = g, physical_issues_emb = ph, mental_issues_emb = m\<rparr> df)"
    by (simp add: set_sorted_reverse)
  from candidates_mem[OF this] e show ?thesis by blast
qed

lemma lexical_match_no_candidate:
  assumes "q \<in> set (physical_issues p @ mental_issues p)" "lexical_match (lower q) r"
  shows "fst (row_body M p ue r calls) \<noteq> Inr (Some rec)"
proof
  assume "fst (row_body M p ue r calls) = Inr (Some rec)"
  then have "fst (discard_loop M (lower (Contraindications r)) (Contraindications_emb r)
                  (physical_issues p @ mental_issues p) calls) = Inr False"
    using row_body_Some by blast
  from discard_loop_Inr[OF this] assms show False by blast
qed

lemma weighted_average_bounds:
  assumes "- 1 \<le> c1 \<and> c1 \<le> 1" "- 1 \<le> c2 \<and> c2 \<le> 1" "- 1 \<le> c3 \<and> c3 \<le> 1"
    "- 1 \<le> c4 \<and> c4 \<le> 1" "- 1 \<le> c5 \<and> c5 \<le> 1"
  shows "- 1 \<le> weighted_average c1 c2 c3 c4 c5 \<and> weighted_average c1 c2 c3 c4 c5 \<le> 1"
  using assms by (simp add: weighted_average_def)

lemma candidates_append:
  "candidates M p ue (xs @ ys) = candidates M p ue xs @ candidates M p ue ys"
  by (induction xs) (auto simp: candidates_def split: option.splits)

lemma candidates_Cons:
  "candidates M p ue (r # rows) =
     (case row_candidate M p ue r of None \<Rightarrow> candidates M p ue rows
      | Some rec \<Rightarrow> rec # candidates M p ue rows)"
  by (simp add: candidates_def split: option.splits)

lemma candidates_empty:
  "\<forall>r\<in>set df. row_candidate M p ue r = None \<Longrightarrow> candidates M p ue df = []"
  by (induction df) (auto simp: candidates_def)

subsection \<open>The endpoint, and independence of the call log\<close>

lemma get_recommendations_fst:
  "fst (get_recommendations M df p calls) =
     (case fst (recommend_asanas M df p calls) of
        Inr recs \<Rightarrow>
          if recs = [] then No_Recommendations [] no_poses_msg ''success''
          else Recommendations recs (length recs) ''success''
      | Inl (ValueError msg) \<Rightarrow> HTTPException 400 msg
      | Inl (OtherException msg) \<Rightarrow> HTTPException 500 internal_error_msg)"
  by (cases "recommend_asanas M df p calls")
     (auto simp: get_recommendations_def split: sum.splits py_error.splits)

lemma recommend_asanas_fst:
  "fst (recommend_asanas M df p calls) = fst (recommend_asanas M df p calls')"
proof (cases "goals p = [] \<or> physical_issues p = [] \<or> mental_issues p = []")
  case True
  then show ?thesis by (simp add: recommend_asanas_invalid)
next
  case valid: False
  show ?thesis
  proof (cases "encode M (join '' '' (goals p))")
    case (Inl e)
    with valid show ?thesis by (simp add: recommend_asanas_def call_encode_def)
  next
    case g: (Inr g)
    show ?thesis
    proof (cases "encode M (join '' '' (physical_issues p))")
      case (Inl e)
      with valid g show ?thesis by (simp add: recommend_asanas_def call_encode_def)
    next
      case ph: (Inr ph)
      show ?thesis
      proof (cases "encode M (join '' '' (mental_issues p))")
        case (Inl e)
        with valid g ph show ?thesis by (simp add: recommend_asanas_def call_encode_def)
      next
        case m: (Inr m)
        from valid have v: "goals p \<noteq> []" "physical_issues p \<noteq> []" "mental_issues p \<noteq> []"
          by simp_all
        show ?thesis
          by (simp add: recommend_asanas_ok[OF v g ph m])
      qed
    qed
  qed
qed

lemmas eval_defs = recommend_asanas_def get_recommendations_def call_encode_def example_defs
  row_body_def row_score_def bind_err_def lower_def lower_char_Char weights_def total_weight_16
  py_round_def round_half_even_def sorted_reverse_def row_candidate_def Let_def

subsection \<open>Decomposing filtered lists\<close>

lemma map_filter_eq_append_Cons:
  "List.map_filter f xs = us @ a # vs \<Longrightarrow>
   \<exists>xs1 x xs2. xs = xs1 @ x # xs2 \<and> f x = Some a
     \<and> List.map_filter f xs1 = us \<and> List.map_filter f xs2 = vs"
proof (induction xs arbitrary: us)
  case Nil
  then show ?case by simp
next
  case (Cons y ys)
  show ?case
  proof (cases "f y")
    case None
    with Cons.prems have "List.map_filter f ys = us @ a # vs" by simp
    from Cons.IH[OF this] obtain xs1 x xs2 where
      "ys = xs1 @ x # xs2" "f x = Some a" "List.map_filter f xs1 = us"
      "List.map_filter f xs2 = vs" by blast
    with None have "y # ys = (y # xs1) @ x # xs2 \<and> f x = Some a
       \<and> List.map_filter f (y # xs1) = us \<and> List.map_filter f xs2 = vs" by simp
    then show ?thesis by blast
  next
    case (Some b)
    with Cons.prems have eq: "b # List.map_filter f ys = us @ a # vs" by simp
    show ?thesis
    proof (cases us)
      case Nil
      with eq have "b = a" "List.map_filter f ys = vs" by simp_all
      with Some Nil have "y # ys = [] @ y # ys \<and> f y = Some a
        \<and> List.map_filter f [] = us \<and> List.map_filter f ys = vs" by simp
      then show ?thesis by blast
    next
      case (Cons u us')
      with eq have "List.map_filter f ys = us' @ a # vs" "u = b" by simp_all
      from Cons.IH[OF this(1)] obtain xs1 x xs2 where
        "ys = xs1 @ x # xs2" "f x = Some a" "List.map_filter f xs1 = us'"
        "List.map_filter f xs2 = vs" by blast
      with Some Cons \<open>u = b\<close> have "y # ys = (y # xs1) @ x # xs2 \<and> f x = Some a
        \<and> List.map_filter f (y # xs1) = us \<and> List.map_filter f xs2 = vs" by simp
      then show ?thesis by blast
    qed
  qed
qed

lemma filter_eq_append_Cons:
  "filter P xs = us @ a # vs \<Longrightarrow>
   \<exists>xs1 xs2. xs = xs1 @ a # xs2 \<and> filter P xs1 = us \<and> filter P xs2 = vs"
proof (induction xs arbitrary: us)
  case Nil
  then show ?case by simp
next
  case (Cons y ys)
  show ?case
  proof (cases "P y")
    case False
    with Cons.prems have "filter P ys = us @ a # vs" by simp
    from Cons.IH[OF this] obtain xs1 xs2 where
      "ys = xs1 @ a # xs2" "filter P xs1 = us" "filter P xs2 = vs" by blast
    with False have "y # ys = (y # xs1) @ a # xs2 \<and> filter P (y # xs1) = us
      \<and> filter P xs2 = vs" by simp
    then show ?thesis by blast
  next
    case True
    with Cons.prems have eq: "y # filter P ys = us @ a # vs" by simp
    show ?thesis
    proof (cases us)
      case Nil
      with eq have "y # ys = [] @ a # ys \<and> filter P [] = us \<and> filter P ys = vs" by simp
      then show ?thesis by blast
    next
      case (Cons u us')
      with eq have "filter P ys = us' @ a # vs" "u = y" by simp_all
      from Cons.IH[OF this(1)] obtain xs1 xs2 where
        "ys = xs1 @ a # xs2" "filter P xs1 = us'" "filter P xs2 = vs" by blast
      with True Cons \<open>u = y\<close> have "y # ys = (y # xs1) @ a # xs2 \<and> filter P (y # xs1) = us
        \<and> filter P xs2 = vs" by simp
      then show ?thesis by blast
    qed
  qed
qed

lemma stable_prefix:
  "prefix (filter (\<lambda>y. f y = k) (take n (sorted_reverse f xs))) (filter (\<lambda>y. f y = k) xs)"
proof -
  have "prefix (filter (\<lambda>y. f y = k) (take n (sorted_reverse f xs)))
               (filter (\<lambda>y. f y = k) (sorted_reverse f xs))"
    by (rule filter_mono_prefix) (rule take_is_prefix)
  then show ?thesis by (simp add: sorted_reverse_stable)
qed

subsection \<open>An embedder with internal state whose answers do not depend on it\<close>

lemma env_at_deterministic:
  assumes "\<forall>s t x. fst (encode_step Ms s x) = fst (encode_step Ms t x)"
  shows "env_at Ms s = env_at Ms t"
proof -
  have "(\<lambda>x. fst (encode_step Ms s x)) = (\<lambda>x. fst (encode_step Ms t x))"
    by (rule ext) (use assms in blast)
  then show ?thesis by (simp add: env_at_def)
qed

lemma discard_loop_st_fst:
  assumes det: "\<forall>s t x. fst (encode_step Ms s x) = fst (encode_step Ms t x)"
  shows "fst (discard_loop_st Ms ct ce issues st)
           = fst (discard_loop (env_at Ms s0) ct ce issues calls)"
proof (induction issues arbitrary: st calls)
  case Nil
  then show ?case by simp
next
  case (Cons q issues)
  obtain res st' where step: "encode_step Ms st (lower q) = (res, st')"
    by (cases "encode_step Ms st (lower q)")
  with det have res: "encode (env_at Ms s0) (lower q) = res"
    by (metis env_at_def env.select_convs(1) fst_conv)
  show ?case
  proof (cases "str_in (lower q) ct")
    case True
    then show ?thesis by simp
  next
    case False
    show ?thesis
    proof (cases res)
      case (Inl e)
      with False step res show ?thesis by (simp add: call_encode_def)
    next
      case (Inr v)
      with False step res Cons.IH[of st' "calls @ [lower q]"] show ?thesis
        by (simp add: call_encode_def env_at_def split: sum.splits)
    qed
  qed
qed

lemma row_body_st_fst:
  assumes det: "\<forall>s t x. fst (encode_step Ms s x) = fst (encode_step Ms t x)"
  shows "fst (row_body_st Ms p ue r st) = fst (row_body (env_at Ms s0) p ue r calls)"
proof -
  let ?issues = "physical_issues p @ mental_issues p"
  obtain d st' where a: "discard_loop_st Ms (lower (Contraindications r))
      (Contraindications_emb r) ?issues st = (d, st')"
    by (cases "discard_loop_st Ms (lower (Contraindications r))
      (Contraindications_emb r) ?issues st")
  obtain d' calls' where b: "discard_loop (env_at Ms s0) (lower (Contraindications r))
      (Contraindications_emb r) ?issues calls = (d', calls')"
    by (cases "discard_loop (env_at Ms s0) (lower (Contraindications r))
      (Contraindications_emb r) ?issues calls")
  from discard_loop_st_fst[OF det, of "lower (Contraindications r)" "Contraindications_emb r"
      ?issues st s0 calls] a b
  have dd: "d' = d" by simp
  have sc: "row_score (env_at Ms st') ue r = row_score (env_at Ms s0) ue r"
    using env_at_deterministic[OF det, of st' s0] by simp
  from a b dd sc show ?thesis
    by (simp add: row_body_st_def row_body_def split: sum.splits bool.splits)
qed

lemma iterrows_loop_st_fst:
  assumes det: "\<forall>s t x. fst (encode_step Ms s x) = fst (encode_step Ms t x)"
  shows "fst (iterrows_loop_st Ms p ue rows recs st)
           = fst (iterrows_loop (env_at Ms s0) p ue rows recs calls)"
proof (induction rows arbitrary: recs st calls)
  case Nil
  then show ?case by simp
next
  case (Cons r rows)
  obtain res st' where a: "row_body_st Ms p ue r st = (res, st')"
    by (cases "row_body_st Ms p ue r st")
  obtain res' calls' where b: "row_body (env_at Ms s0) p ue r calls = (res', calls')"
    by (cases "row_body (env_at Ms s0) p ue r calls")
  from row_body_st_fst[OF det, of p ue r st s0 calls] a b have "res' = res" by simp
  with a b Cons.IH show ?case
    by (simp split: sum.splits option.splits)
qed

lemma recommend_asanas_st_data_frame:
  "data_frame (snd (recommend_asanas_st Ms p w)) = data_frame w"
  by (simp add: recommend_asanas_st_def Let_def split: prod.splits sum.splits)

lemma recommend_asanas_st_fst:
  assumes det: "\<forall>s t x. fst (encode_step Ms s x) = fst (encode_step Ms t x)"
  shows "fst (recommend_asanas_st Ms p w)
           = fst (recommend_asanas (env_at Ms s0) (data_frame w) p calls)"
proof (cases "goals p = [] \<or> physical_issues p = [] \<or> mental_issues p = []")
  case True
  then show ?thesis by (simp add: recommend_asanas_st_def recommend_asanas_def)
next
  case valid: False
  have enc: "encode (env_at Ms s0) x = fst (encode_step Ms st x)" for st x
    using det by (simp add: env_at_def)
  obtain r1 st1 where e1: "encode_step Ms (model_state w) (join '' '' (goals p)) = (r1, st1)"
    by (cases "encode_step Ms (model_state w) (join '' '' (goals p))")
  obtain r2 st2 where e2: "encode_step Ms st1 (join '' '' (physical_issues p)) = (r2, st2)"
    by (cases "encode_step Ms st1 (join '' '' (physical_issues p))")
  obtain r3 st3 where e3: "encode_step Ms st2 (join '' '' (mental_issues p)) = (r3, st3)"
    by (cases "encode_step Ms st2 (join '' '' (mental_issues p))")
  from e1 e2 e3 have p:
    "encode (env_at Ms s0) (join '' '' (goals p)) = r1"
    "encode (env_at Ms s0) (join '' '' (physical_issues p)) = r2"
    "encode (env_at Ms s0) (join '' '' (mental_issues p)) = r3"
    using enc[of "join '' '' (goals p)" "model_state w"]
      enc[of "join '' '' (physical_issues p)" st1] enc[of "join '' '' (mental_issues p)" st2]
    by simp_all
  show ?thesis
  proof (cases r1)
    case (Inl e)
    with valid e1 p show ?thesis
      by (simp add: recommend_asanas_st_def recommend_asanas_def call_encode_def)
  next
    case g: (Inr g)
    show ?thesis
    proof (cases r2)
      case (Inl e)
      with valid e1 e2 p g show ?thesis
        by (simp add: recommend_asanas_st_def recommend_asanas_def call_encode_def)
    next
      case ph: (Inr ph)
      show ?thesis
      proof (cases r3)
        case (Inl e)
        with valid e1 e2 e3 p g ph show ?thesis
          by (simp add: recommend_asanas_st_def recommend_asanas_def call_encode_def)
      next
        case m: (Inr m)
        let ?ue = "\<lparr>goals_emb = g, physical_issues_emb = ph, mental_issues_emb = m\<rparr>"
        let ?c3 = "((calls @ [join '' '' (goals p)]) @ [join '' '' (physical_issues p)])
               @ [join '' '' (mental_issues p)]"
        obtain recs st4 where a: "iterrows_loop_st Ms p ?ue (data_frame w) [] st3 = (recs, st4)"
          by (cases "iterrows_loop_st Ms p ?ue (data_frame w) [] st3")
        obtain recs' calls4 where
          b: "iterrows_loop (env_at Ms s0) p ?ue (data_frame w) [] ?c3 = (recs', calls4)"
          by (cases "iterrows_loop (env_at Ms s0) p ?ue (data_frame w) [] ?c3")
        from iterrows_loop_st_fst[OF det, of p ?ue "data_frame w" "[]" st3 s0 ?c3] a b
        have "recs' = recs" by simp
        with valid e1 e2 e3 p g ph m a b show ?thesis
          by (simp add: recommend_asanas_st_def recommend_asanas_def call_encode_def)
      qed
    qed
  qed
qed

lemma get_recommendations_st_fst:
  "fst (get_recommendations_st Ms p w) =
     (case fst (recommend_asanas_st Ms p w) of
        Inr recs \<Rightarrow>
          if recs = [] then No_Recommendations [] no_poses_msg ''success''
          else Recommendations recs (length recs) ''success''
      | Inl (ValueError msg) \<Rightarrow> HTTPException 400 msg
      | Inl (OtherException msg) \<Rightarrow> HTTPException 500 internal_error_msg)"
  by (cases "recommend_asanas_st Ms p w")
     (auto simp: get_recommendations_st_def split: sum.splits py_error.splits)

lemma get_recommendations_st_snd:
  "snd (get_recommendations_st Ms p w) = snd (recommend_asanas_st Ms p w)"
  by (cases "recommend_asanas_st Ms p w")
     (auto simp: get_recommendations_st_def split: sum.splits py_error.splits)

lemmas eval_st_defs = recommend_asanas_st_def row_body_st_def env_at_def counting_model_def
  exhausting_model_def example_cos_def example_profile_def example_row_def row_score_def
  bind_err_def lower_def lower_char_Char weights_def total_weight_16 py_round_def
  round_half_even_def sorted_reverse_def Let_def

text \<open>Without the assumption on the embedder the two calls may differ: the model that
  answers five calls and then raises serves a first request and fails the second.\<close>

lemma exhausting_model_second_call_differs:
  "fst (recommend_asanas_st exhausting_model example_profile
          \<lparr>model_state = 0, data_frame = [example_row]\<rparr>)
     = Inr [\<lparr>name = ''Balasana'', score = 0.2, benefits = ''calms mind'',
             contraindications = ''knee injury''\<rparr>]
   \<and> snd (recommend_asanas_st exhausting_model example_profile
          \<lparr>model_state = 0, data_frame = [example_row]\<rparr>)
     = \<lparr>model_state = 5, data_frame = [example_row]\<rparr>
   \<and> fst (recommend_asanas_st exhausting_model example_profile
          \<lparr>model_state = 5, data_frame = [example_row]\<rparr>)
     = Inl (OtherException ''exhausted'')"
  by (simp add: eval_st_defs)

section \<open>The claims\<close>

text \<open>
  C1. For a row that survives the exclusion filter, the score computed is the weighted sum
  \<open>4 * cos(goals, benefits) + 4 * cos(physical, benefits) + 4 * cos(mental, benefits)
  + 2 * cos(physical, targeted physical) + 2 * cos(mental, targeted mental)\<close> divided by 16,
  and the row is appended with that score, rounded, exactly when it is positive. In
  particular, for a catalog of one row with benefits \<open>calms mind\<close> and contraindications
  \<open>knee injury\<close>, the profile \<open>relax\<close>, \<open>back pain\<close>, \<open>anxiety\<close>, a cosine of 0.8 between
  goals and benefits, the four other cosines 0 and no contraindication match, the result
  is that one row with score \<open>(4 * 0.8) / 16 = 0.2\<close>.
\<close>

theorem score_is_weighted_average:
  "(fst (discard_loop M (lower (Contraindications r)) (Contraindications_emb r)
           (physical_issues p @ mental_issues p) calls) = Inr False
    \<and> cos_sim M (goals_emb ue) (Benefits_emb r) = Inr c1
    \<and> cos_sim M (physical_issues_emb ue) (Benefits_emb r) = Inr c2
    \<and> cos_sim M (mental_issues_emb ue) (Benefits_emb r) = Inr c3
    \<and> cos_sim M (physical_issues_emb ue) (Targeted_Physical_Problems_emb r) = Inr c4
    \<and> cos_sim M (mental_issues_emb ue) (Targeted_Mental_Problems_emb r) = Inr c5
    \<longrightarrow> row_score M ue r = Inr ((4 * c1 + 4 * c2 + 4 * c3 + 2 * c4 + 2 * c5) / 16)
      \<and> fst (row_body M p ue r calls) =
          Inr (if 0 < (4 * c1 + 4 * c2 + 4 * c3 + 2 * c4 + 2 * c5) / 16
               then Some \<lparr>name = AName r,
                          score = py_round ((4 * c1 + 4 * c2 + 4 * c3 + 2 * c4 + 2 * c5) / 16) 3,
                          benefits = Benefits r, contraindications = Contraindications r\<rparr>
               else None))
   \<and> (goals p' = [''relax''] \<and> physical_issues p' = [''back pain'']
      \<and> mental_issues p' = [''anxiety'']
      \<and> Benefits r' = ''calms mind'' \<and> Contraindications r' = ''knee injury''
      \<and> encode M ''relax'' = Inr g \<and> encode M ''back pain'' = Inr ph
      \<and> encode M ''anxiety'' = Inr m
      \<and> cos_sim M ph (Contraindications_emb r') = Inr s1 \<and> s1 \<le> 0.25
      \<and> cos_sim M m (Contraindications_emb r') = Inr s2 \<and> s2 \<le> 0.25
      \<and> cos_sim M g (Benefits_emb r') = Inr 0.8
      \<and> cos_sim M ph (Benefits_emb r') = Inr 0
      \<and> cos_sim M m (Benefits_emb r') = Inr 0
      \<and> cos_sim M ph (Targeted_Physical_Problems_emb r') = Inr 0
      \<and> cos_sim M m (Targeted_Mental_Problems_emb r') = Inr 0
      \<longrightarrow> fst (recommend_asanas M [r'] p' calls') =
            Inr [\<lparr>name = AName r', score = (4 * 0.8) / 16, benefits = ''calms mind'',
                  contraindications = ''knee injury''\<rparr>])"
proof (intro conjI impI)
  assume a: "fst (discard_loop M (lower (Contraindications r)) (Contraindications_emb r)
           (physical_issues p @ mental_issues p) calls) = Inr False
    \<and> cos_sim M (goals_emb ue) (Benefits_emb r) = Inr c1
    \<and> cos_sim M (physical_issues_emb ue) (Benefits_emb r) = Inr c2
    \<and> cos_sim M (mental_issues_emb ue) (Benefits_emb r) = Inr c3
    \<and> cos_sim M (physical_issues_emb ue) (Targeted_Physical_Problems_emb r) = Inr c4
    \<and> cos_sim M (mental_issues_emb ue) (Targeted_Mental_Problems_emb r) = Inr c5"
  then have sc: "row_score M ue r = Inr (weighted_average c1 c2 c3 c4 c5)"
    by (intro row_score_formula) simp_all
  then show "row_score M ue r = Inr ((4 * c1 + 4 * c2 + 4 * c3 + 2 * c4 + 2 * c5) / 16)"
    by (simp add: weighted_average_def)
  from a have d: "fst (discard_loop M (lower (Contraindications r)) (Contraindications_emb r)
           (physical_issues p @ mental_issues p) calls) = Inr False" by simp
  show "fst (row_body M p ue r calls) =
          Inr (if 0 < (4 * c1 + 4 * c2 + 4 * c3 + 2 * c4 + 2 * c5) / 16
               then Some \<lparr>name = AName r,
                          score = py_round ((4 * c1 + 4 * c2 + 4 * c3 + 2 * c4 + 2 * c5) / 16) 3,
                          benefits = Benefits r, contraindications = Contraindications r\<rparr>
               else None)"
    using row_body_survivor[OF d sc] by (simp add: weighted_average_def)
next
  assume b: "goals p' = [''relax''] \<and> physical_issues p' = [''back pain'']
      \<and> mental_issues p' = [''anxiety'']
      \<and> Benefits r' = ''calms mind'' \<and> Contraindications r' = ''knee injury''
      \<and> encode M ''relax'' = Inr g \<and> encode M ''back pain'' = Inr ph
      \<and> encode M ''anxiety'' = Inr m
      \<and> cos_sim M ph (Contraindications_emb r') = Inr s1 \<and> s1 \<le> 0.25
      \<and> cos_sim M m (Contraindications_emb r') = Inr s2 \<and> s2 \<le> 0.25
      \<and> cos_sim M g (Benefits_emb r') = Inr 0.8
      \<and> cos_sim M ph (Benefits_emb r') = Inr 0
      \<and> cos_sim M m (Benefits_emb r') = Inr 0
      \<and> cos_sim M ph (Targeted_Physical_Problems_emb r') = Inr 0
      \<and> cos_sim M m (Targeted_Mental_Problems_emb r') = Inr 0"
  have "fst (recommend_asanas M [r'] p' calls') =
            Inr [\<lparr>name = AName r', score = 0.2, benefits = ''calms mind'',
                  contraindications = ''knee injury''\<rparr>]"
    by (rule single_row_scenario[where g = g and ph = ph and m = m and ?s1.0 = s1 and ?s2.0 = s2])
       (insert b, simp_all)
  then show "fst (recommend_asanas M [r'] p' calls') =
            Inr [\<lparr>name = AName r', score = (4 * 0.8) / 16, benefits = ''calms mind'',
                  contraindications = ''knee injury''\<rparr>]"
    by simp
qed

theorem score_is_weighted_average_witness:
  "row_score example_env
     \<lparr>goals_emb = ''relax'', physical_issues_emb = ''back pain'', mental_issues_emb = ''anxiety''\<rparr>
     example_row = Inr ((4 * 0.8 + 4 * 0 + 4 * 0 + 2 * 0 + 2 * 0) / 16)
   \<and> fst (recommend_asanas example_env [example_row] example_profile []) =
       Inr [\<lparr>name = ''Balasana'', score = 0.2, benefits = ''calms mind'',
             contraindications = ''knee injury''\<rparr>]"
  using score_is_weighted_average
    [of example_env example_row example_profile "[]"
        "\<lparr>goals_emb = ''relax'', physical_issues_emb = ''back pain'',
          mental_issues_emb = ''anxiety''\<rparr>"
        "0.8" 0 0 0 0 example_profile example_row "''relax''" "''back pain''" "''anxiety''"
        0 0 "[]"]
  by (simp add: example_defs call_encode_def lower_def lower_char_Char)

text \<open>
  C3. When \<^const>\<open>recommend_asanas\<close> succeeds, it returns at most 10 entries, and each
  entry's score is greater than or equal to the score of every later entry.
\<close>

theorem output_capped_and_sorted:
  assumes "fst (recommend_asanas M df p calls) = Inr out"
  shows "length out \<le> 10 \<and> sorted_wrt (\<lambda>a b. score b \<le> score a) out"
proof -
  from assms obtain g ph m where
    out: "out = take 10 (sorted_reverse score
             (candidates M p \<lparr>goals_emb = g, physical_issues_emb = ph, mental_issues_emb = m\<rparr> df))"
    by (rule recommend_asanas_cases)
  have "length out \<le> 10" by (simp add: out)
  moreover have "sorted_wrt (\<lambda>a b. score b \<le> score a) out"
    unfolding out by (rule sorted_wrt_take) (rule sorted_reverse_sorted)
  ultimately show ?thesis by simp
qed

theorem output_capped_and_sorted_witness:
  "fst (recommend_asanas example_env
          [spine_row, example_row, back_row, malformed_row, calm_row] example_profile [])
     = Inr [\<lparr>name = ''Balasana'', score = 0.2, benefits = ''calms mind'',
               contraindications = ''knee injury''\<rparr>,
            \<lparr>name = ''Sukhasana'', score = 0.2, benefits = ''calms mind'',
               contraindications = ''Neck strain''\<rparr>,
            \<lparr>name = ''Bhujangasana'', score = 0.1, benefits = ''stretches spine'',
               contraindications = ''pregnancy''\<rparr>]
   \<and> length [\<lparr>name = ''Balasana'', score = 0.2, benefits = ''calms mind'',
               contraindications = ''knee injury''\<rparr>,
            \<lparr>name = ''Sukhasana'', score = 0.2, benefits = ''calms mind'',
               contraindications = ''Neck strain''\<rparr>,
            \<lparr>name = ''Bhujangasana'', score = 0.1, benefits = ''stretches spine'',
               contraindications = ''pregnancy''\<rparr>] \<le> 10
   \<and> sorted_wrt (\<lambda>a b. score b \<le> score a)
        [\<lparr>name = ''Balasana'', score = 0.2, benefits = ''calms mind'',
               contraindications = ''knee injury''\<rparr>,
            \<lparr>name = ''Sukhasana'', score = 0.2, benefits = ''calms mind'',
               contraindications = ''Neck strain''\<rparr>,
            \<lparr>name = ''Bhujangasana'', score = 0.1, benefits = ''stretches spine'',
               contraindications = ''pregnancy''\<rparr>]"
  using output_capped_and_sorted [OF example_catalog_output] example_catalog_output
  by blast

text \<open>
  C5. A profile in which one of the lists \<open>goals\<close>, \<open>physical_issues\<close>, \<open>mental_issues\<close> is
  empty makes \<^const>\<open>recommend_asanas\<close> raise the \<open>ValueError\<close> of its validation, which
  the endpoint answers with status 400; the call log is returned as it was, so the embedder
  has not been called.
\<close>

theorem invalid_profile_fails_before_embedding:
  assumes "goals p = [] \<or> physical_issues p = [] \<or> mental_issues p = []"
  shows "recommend_asanas M df p calls = (Inl (ValueError missing_fields_msg), calls)
       \<and> get_recommendations M df p calls = (HTTPException 400 missing_fields_msg, calls)"
  using assms by (simp add: get_recommendations_def recommend_asanas_def)

theorem invalid_profile_fails_before_embedding_witness:
  "goals (example_profile\<lparr>goals := []\<rparr>) = []
   \<and> recommend_asanas example_env [example_row] (example_profile\<lparr>goals := []\<rparr>) []
       = (Inl (ValueError missing_fields_msg), [])
   \<and> get_recommendations example_env [example_row] (example_profile\<lparr>goals := []\<rparr>) []
       = (HTTPException 400 missing_fields_msg, [])"
  using invalid_profile_fails_before_embedding
          [of "example_profile\<lparr>goals := []\<rparr>" example_env "[example_row]" "[]"]
  by simp

text \<open>
  C2. When the embedder and the cosine do not raise on the phrases of
  \<open>physical_issues + mental_issues\<close>, the flag \<open>discard\<close> of a row is set if and only if
  some phrase \<open>q\<close> of that list, lower-cased, is a substring of the lower-cased
  contraindications text, or the cosine of its embedding with the row's contraindications
  embedding is greater than 0.25; a discarded row is not scored, any other row is. A row
  whose contraindications text contains a phrase, case-insensitively, contributes no
  candidate whatever its similarities are, and no entry of the output carries such a text.
\<close>

theorem excluded_iff_phrase_matches:
  "((\<forall>q\<in>set (physical_issues p @ mental_issues p).
       \<exists>v c. encode M (lower q) = Inr v \<and> cos_sim M v (Contraindications_emb r) = Inr c)
    \<longrightarrow> fst (discard_loop M (lower (Contraindications r)) (Contraindications_emb r)
              (physical_issues p @ mental_issues p) calls)
          = Inr (\<exists>q\<in>set (physical_issues p @ mental_issues p).
                   str_in (lower q) (lower (Contraindications r))
                 \<or> (\<exists>v c. encode M (lower q) = Inr v
                        \<and> cos_sim M v (Contraindications_emb r) = Inr c \<and> 0.25 < c))
      \<and> fst (row_body M p ue r calls) =
          (if \<exists>q\<in>set (physical_issues p @ mental_issues p).
                   str_in (lower q) (lower (Contraindications r))
                 \<or> (\<exists>v c. encode M (lower q) = Inr v
                        \<and> cos_sim M v (Contraindications_emb r) = Inr c \<and> 0.25 < c)
           then Inr None
           else (case row_score M ue r of
                   Inl e \<Rightarrow> Inl e
                 | Inr s \<Rightarrow>
                     Inr (if 0 < s
                          then Some \<lparr>name = AName r, score = py_round s 3, benefits = Benefits r,
                                     contraindications = Contraindications r\<rparr>
                          else None))))
   \<and> ((\<exists>q\<in>set (physical_issues p @ mental_issues p).
          str_in (lower q) (lower (Contraindications r)))
      \<longrightarrow> row_candidate M p ue r = None)
   \<and> (fst (recommend_asanas M df p calls) = Inr out
      \<longrightarrow> (\<forall>rec\<in>set out. \<forall>q\<in>set (physical_issues p @ mental_issues p).
             \<not> str_in (lower q) (lower (contraindications rec))))"
proof (intro conjI impI)
  let ?issues = "physical_issues p @ mental_issues p"
  let ?D = "\<exists>q\<in>set ?issues. str_in (lower q) (lower (Contraindications r))
                 \<or> (\<exists>v c. encode M (lower q) = Inr v
                        \<and> cos_sim M v (Contraindications_emb r) = Inr c \<and> 0.25 < c)"
  let ?loop = "discard_loop M (lower (Contraindications r)) (Contraindications_emb r) ?issues calls"
  have sem: "semantic_match M q r = (\<exists>v c. encode M q = Inr v
                        \<and> cos_sim M v (Contraindications_emb r) = Inr c \<and> 0.25 < c)" for q
    by (auto simp: semantic_match_def split: sum.splits)
  assume tot: "\<forall>q\<in>set ?issues.
       \<exists>v c. encode M (lower q) = Inr v \<and> cos_sim M v (Contraindications_emb r) = Inr c"
  from discard_loop_total[OF this] obtain d where d: "fst ?loop = Inr d" by blast
  from discard_loop_Inr[OF this] have dD: "d = ?D"
    by (simp add: sem lexical_match_def)
  with d show loop: "fst ?loop = Inr ?D" by simp
  show "fst (row_body M p ue r calls) =
          (if ?D then Inr None
           else (case row_score M ue r of
                   Inl e \<Rightarrow> Inl e
                 | Inr s \<Rightarrow>
                     Inr (if 0 < s
                          then Some \<lparr>name = AName r, score = py_round s 3, benefits = Benefits r,
                                     contraindications = Contraindications r\<rparr>
                          else None)))"
  proof (cases ?D)
    case True
    with loop have "fst ?loop = Inr True" by simp
    from row_body_discarded[OF this] True show ?thesis by simp
  next
    case False
    with loop have f: "fst ?loop = Inr False" by simp
    show ?thesis
    proof (cases "row_score M ue r")
      case (Inl e)
      with f False show ?thesis
        by (cases ?loop) (simp add: row_body_def)
    next
      case (Inr s)
      from row_body_survivor[OF f Inr] False Inr show ?thesis by simp
    qed
  qed
next
  assume "\<exists>q\<in>set (physical_issues p @ mental_issues p).
          str_in (lower q) (lower (Contraindications r))"
  then obtain q where q: "q \<in> set (physical_issues p @ mental_issues p)"
    "lexical_match (lower q) r"
    by (auto simp: lexical_match_def)
  have "fst (row_body M p ue r []) \<noteq> Inr (Some rec)" for rec
    by (rule lexical_match_no_candidate[OF q])
  then show "row_candidate M p ue r = None"
    by (auto simp: row_candidate_def split: sum.splits option.splits)
next
  assume ok: "fst (recommend_asanas M df p calls) = Inr out"
  show "\<forall>rec\<in>set out. \<forall>q\<in>set (physical_issues p @ mental_issues p).
             \<not> str_in (lower q) (lower (contraindications rec))"
  proof (intro ballI notI)
    fix rec q
    assume rec: "rec \<in> set out" and q: "q \<in> set (physical_issues p @ mental_issues p)"
      and m: "str_in (lower q) (lower (contraindications rec))"
    from output_subset_candidates[OF ok rec] obtain ue r where
      rc: "row_candidate M p ue r = Some rec" by blast
    then have b: "fst (row_body M p ue r []) = Inr (Some rec)" by (rule row_candidate_Some)
    with row_body_Some have "contraindications rec = Contraindications r" by fastforce
    with m have "lexical_match (lower q) r" by (simp add: lexical_match_def)
    from lexical_match_no_candidate[OF q this] b show False by blast
  qed
qed


theorem excluded_iff_phrase_matches_witness:
  "fst (discard_loop example_env (lower (Contraindications back_row))
          (Contraindications_emb back_row)
          (physical_issues example_profile @ mental_issues example_profile) []) = Inr True
   \<and> fst (row_body example_env example_profile
            \<lparr>goals_emb = ''relax'', physical_issues_emb = ''back pain'',
             mental_issues_emb = ''anxiety''\<rparr> back_row []) = Inr None
   \<and> row_candidate example_env example_profile
        \<lparr>goals_emb = ''relax'', physical_issues_emb = ''back pain'',
         mental_issues_emb = ''anxiety''\<rparr> back_row = None
   \<and> fst (recommend_asanas example_env [back_row, example_row] example_profile []) =
        Inr [\<lparr>name = ''Balasana'', score = 0.2, benefits = ''calms mind'',
              contraindications = ''knee injury''\<rparr>]
   \<and> \<not> str_in (lower ''back pain'') (lower ''knee injury'')
   \<and> \<not> str_in (lower ''anxiety'') (lower ''knee injury'')"
  using excluded_iff_phrase_matches
    [of example_profile example_env back_row "[]"
        "\<lparr>goals_emb = ''relax'', physical_issues_emb = ''back pain'',
          mental_issues_emb = ''anxiety''\<rparr>"
        "[back_row, example_row]"
        "[\<lparr>name = ''Balasana'', score = 0.2, benefits = ''calms mind'',
              contraindications = ''knee injury''\<rparr>]"]
  by (simp add: recommend_asanas_def call_encode_def example_defs row_body_def row_score_def
      bind_err_def lower_def lower_char_Char weights_def total_weight_16 py_round_def
      round_half_even_def sorted_reverse_def row_candidate_def Let_def)

text \<open>
  C4, as the claim states it, fails: a row whose weighted average is \<open>0.0004\<close> passes the
  cutoff \<open>score > 0\<close> and is returned with the rounded score \<open>0.0\<close>, which is not greater
  than 0.
\<close>

theorem positive_score_counterexample:
  "fst (recommend_asanas faint_env [example_row] example_profile []) =
     Inr [\<lparr>name = ''Balasana'', score = 0, benefits = ''calms mind'',
           contraindications = ''knee injury''\<rparr>]
   \<and> row_score faint_env
        \<lparr>goals_emb = ''relax'', physical_issues_emb = ''back pain'',
         mental_issues_emb = ''anxiety''\<rparr> example_row = Inr 0.0004
   \<and> \<not> 0 < score \<lparr>name = ''Balasana'', score = 0, benefits = ''calms mind'',
                    contraindications = ''knee injury''\<rparr>"
  by (simp add: recommend_asanas_def call_encode_def example_defs row_body_def row_score_def
      bind_err_def lower_def lower_char_Char weights_def total_weight_16 py_round_def
      round_half_even_def sorted_reverse_def Let_def)

text \<open>
  C4, amended. When every cosine lies in \<open>[-1, 1]\<close>, the score field of every returned
  entry is at least 0 and at most 1; it is the weighted average of the five cosines of a
  row of the catalog, rounded to 3 decimal digits, and that weighted average, before
  rounding, is strictly positive.
\<close>

theorem score_field_range:
  assumes bounded: "\<forall>a b c. cos_sim M a b = Inr c \<longrightarrow> - 1 \<le> c \<and> c \<le> 1"
    and ok: "fst (recommend_asanas M df p calls) = Inr out"
    and rec: "rec \<in> set out"
  shows "0 \<le> score rec \<and> score rec \<le> 1
       \<and> (\<exists>g ph m r c1 c2 c3 c4 c5.
             encode M (join '' '' (goals p)) = Inr g
           \<and> encode M (join '' '' (physical_issues p)) = Inr ph
           \<and> encode M (join '' '' (mental_issues p)) = Inr m
           \<and> r \<in> set df
           \<and> cos_sim M g (Benefits_emb r) = Inr c1
           \<and> cos_sim M ph (Benefits_emb r) = Inr c2
           \<and> cos_sim M m (Benefits_emb r) = Inr c3
           \<and> cos_sim M ph (Targeted_Physical_Problems_emb r) = Inr c4
           \<and> cos_sim M m (Targeted_Mental_Problems_emb r) = Inr c5
           \<and> 0 < (4 * c1 + 4 * c2 + 4 * c3 + 2 * c4 + 2 * c5) / 16
           \<and> rec = \<lparr>name = AName r,
                     score = py_round ((4 * c1 + 4 * c2 + 4 * c3 + 2 * c4 + 2 * c5) / 16) 3,
                     benefits = Benefits r, contraindications = Contraindications r\<rparr>)"
proof -
  from output_subset_candidates[OF ok rec] obtain g ph m r where
    e: "encode M (join '' '' (goals p)) = Inr g"
       "encode M (join '' '' (physical_issues p)) = Inr ph"
       "encode M (join '' '' (mental_issues p)) = Inr m"
    and r: "r \<in> set df"
    and rc: "row_candidate M p
               \<lparr>goals_emb = g, physical_issues_emb = ph, mental_issues_emb = m\<rparr> r = Some rec"
    by blast
  let ?ue = "\<lparr>goals_emb = g, physical_issues_emb = ph, mental_issues_emb = m\<rparr>"
  from rc have "fst (row_body M p ?ue r []) = Inr (Some rec)" by (rule row_candidate_Some)
  from row_body_Some[OF this] obtain s where
    s: "row_score M ?ue r = Inr s" "0 < s"
    and rec_eq: "rec = \<lparr>name = AName r, score = py_round s 3, benefits = Benefits r,
                        contraindications = Contraindications r\<rparr>"
    by blast
  from row_score_Inr[OF s(1)] obtain c1 c2 c3 c4 c5 where
    c: "cos_sim M g (Benefits_emb r) = Inr c1"
       "cos_sim M ph (Benefits_emb r) = Inr c2"
       "cos_sim M m (Benefits_emb r) = Inr c3"
       "cos_sim M ph (Targeted_Physical_Problems_emb r) = Inr c4"
       "cos_sim M m (Targeted_Mental_Problems_emb r) = Inr c5"
    and s_eq: "s = weighted_average c1 c2 c3 c4 c5"
    by auto
  from bounded c have "- 1 \<le> c1 \<and> c1 \<le> 1" "- 1 \<le> c2 \<and> c2 \<le> 1" "- 1 \<le> c3 \<and> c3 \<le> 1"
    "- 1 \<le> c4 \<and> c4 \<le> 1" "- 1 \<le> c5 \<and> c5 \<le> 1"
    by blast+
  from weighted_average_bounds[OF this] s_eq have "s \<le> 1" by simp
  then have hi: "score rec \<le> 1" by (simp add: rec_eq py_round_le_1)
  from s(2) have lo: "0 \<le> score rec" by (simp add: rec_eq py_round_nonneg)
  have s_eq': "s = (4 * c1 + 4 * c2 + 4 * c3 + 2 * c4 + 2 * c5) / 16"
    by (simp add: s_eq weighted_average_def)
  from e r c s(2) rec_eq show ?thesis
    unfolding s_eq' using lo hi by blast
qed

theorem score_field_range_witness:
  "fst (recommend_asanas faint_env [example_row] example_profile []) =
     Inr [\<lparr>name = ''Balasana'', score = 0, benefits = ''calms mind'',
           contraindications = ''knee injury''\<rparr>]
   \<and> 0 \<le> score \<lparr>name = ''Balasana'', score = 0, benefits = ''calms mind'',
                  contraindications = ''knee injury''\<rparr>
   \<and> score \<lparr>name = ''Balasana'', score = 0, benefits = ''calms mind'',
              contraindications = ''knee injury''\<rparr> \<le> 1"
  using score_field_range
    [of faint_env "[example_row]" example_profile "[]"
        "[\<lparr>name = ''Balasana'', score = 0, benefits = ''calms mind'',
           contraindications = ''knee injury''\<rparr>]"
        "\<lparr>name = ''Balasana'', score = 0, benefits = ''calms mind'',
           contraindications = ''knee injury''\<rparr>"]
  by (simp add: recommend_asanas_def call_encode_def example_defs row_body_def row_score_def
      bind_err_def lower_def lower_char_Char weights_def total_weight_16 py_round_def
      round_half_even_def sorted_reverse_def Let_def)

text \<open>
  C6. For a valid profile whose three query embeddings are derived, a row whose evaluation
  raises (the body of the inner \<^verbatim>\<open>try\<close> ends in an exception) is skipped: the result over
  the catalog is the result over the catalog without that row, the request succeeds, and
  the endpoint does not answer with an \<^verbatim>\<open>HTTPException\<close>.
\<close>

theorem faulty_row_is_skipped:
  assumes "goals p \<noteq> []" "physical_issues p \<noteq> []" "mental_issues p \<noteq> []"
    and "encode M (join '' '' (goals p)) = Inr g"
    and "encode M (join '' '' (physical_issues p)) = Inr ph"
    and "encode M (join '' '' (mental_issues p)) = Inr m"
    and raises: "fst (row_body M p \<lparr>goals_emb = g, physical_issues_emb = ph,
                                     mental_issues_emb = m\<rparr> item calls0) = Inl e"
  shows "fst (recommend_asanas M (xs @ item # ys) p calls)
           = fst (recommend_asanas M (xs @ ys) p calls)
       \<and> (\<exists>out. fst (recommend_asanas M (xs @ item # ys) p calls) = Inr out)
       \<and> fst (get_recommendations M (xs @ item # ys) p calls)
           = fst (get_recommendations M (xs @ ys) p calls)
       \<and> (\<forall>code detail.
            fst (get_recommendations M (xs @ item # ys) p calls) \<noteq> HTTPException code detail)"
proof -
  let ?ue = "\<lparr>goals_emb = g, physical_issues_emb = ph, mental_issues_emb = m\<rparr>"
  from raises have "row_candidate M p ?ue item = None"
    using row_candidate_eq[of M p ?ue item calls0] by simp
  then have c: "candidates M p ?ue (xs @ item # ys) = candidates M p ?ue (xs @ ys)"
    by (simp add: candidates_append candidates_Cons)
  have r1: "fst (recommend_asanas M (xs @ item # ys) p calls) =
              Inr (take 10 (sorted_reverse score (candidates M p ?ue (xs @ item # ys))))"
    by (rule recommend_asanas_ok) fact+
  have r2: "fst (recommend_asanas M (xs @ ys) p calls) =
              Inr (take 10 (sorted_reverse score (candidates M p ?ue (xs @ ys))))"
    by (rule recommend_asanas_ok) fact+
  from r1 r2 c have eq: "fst (recommend_asanas M (xs @ item # ys) p calls)
           = fst (recommend_asanas M (xs @ ys) p calls)" by simp
  moreover from r1 have "\<exists>out. fst (recommend_asanas M (xs @ item # ys) p calls) = Inr out"
    by blast
  moreover from eq have "fst (get_recommendations M (xs @ item # ys) p calls)
           = fst (get_recommendations M (xs @ ys) p calls)"
    by (simp add: get_recommendations_fst)
  moreover from r1 have "\<forall>code detail.
            fst (get_recommendations M (xs @ item # ys) p calls) \<noteq> HTTPException code detail"
    by (simp add: get_recommendations_fst)
  ultimately show ?thesis by blast
qed

theorem faulty_row_is_skipped_witness:
  "fst (row_body example_env example_profile
          \<lparr>goals_emb = ''relax'', physical_issues_emb = ''back pain'',
           mental_issues_emb = ''anxiety''\<rparr> malformed_row [])
     = Inl (OtherException ''cannot convert embedding'')
   \<and> fst (recommend_asanas example_env ([spine_row] @ malformed_row # [example_row])
            example_profile [])
       = fst (recommend_asanas example_env ([spine_row] @ [example_row]) example_profile [])
   \<and> fst (recommend_asanas example_env ([spine_row] @ malformed_row # [example_row])
            example_profile [])
       = Inr [\<lparr>name = ''Balasana'', score = 0.2, benefits = ''calms mind'',
                contraindications = ''knee injury''\<rparr>,
              \<lparr>name = ''Bhujangasana'', score = 0.1, benefits = ''stretches spine'',
                contraindications = ''pregnancy''\<rparr>]"
  using faulty_row_is_skipped
    [of example_profile example_env "''relax''" "''back pain''" "''anxiety''" malformed_row "[]"
        "OtherException ''cannot convert embedding''" "[spine_row]" "[example_row]" "[]"]
  by (simp add: eval_defs)

text \<open>
  C7. For a valid profile whose three query embeddings are derived, when no row of the
  catalog appends a recommendation (each is discarded, scores no more than zero, or
  raises), \<^const>\<open>recommend_asanas\<close> returns the empty list and the endpoint answers with
  the empty list and status \<open>success\<close>, not with an error.
\<close>

theorem no_survivor_is_success:
  assumes "goals p \<noteq> []" "physical_issues p \<noteq> []" "mental_issues p \<noteq> []"
    and "encode M (join '' '' (goals p)) = Inr g"
    and "encode M (join '' '' (physical_issues p)) = Inr ph"
    and "encode M (join '' '' (mental_issues p)) = Inr m"
    and none: "\<forall>r\<in>set df. \<forall>rec. fst (row_body M p \<lparr>goals_emb = g, physical_issues_emb = ph,
                                     mental_issues_emb = m\<rparr> r []) \<noteq> Inr (Some rec)"
  shows "fst (recommend_asanas M df p calls) = Inr []
       \<and> fst (get_recommendations M df p calls) = No_Recommendations [] no_poses_msg ''success''"
proof -
  let ?ue = "\<lparr>goals_emb = g, physical_issues_emb = ph, mental_issues_emb = m\<rparr>"
  from none have "\<forall>r\<in>set df. row_candidate M p ?ue r = None"
    by (auto simp: row_candidate_def split: sum.splits option.splits)
  then have "candidates M p ?ue df = []" by (rule candidates_empty)
  moreover have "fst (recommend_asanas M df p calls) =
              Inr (take 10 (sorted_reverse score (candidates M p ?ue df)))"
    by (rule recommend_asanas_ok) fact+
  ultimately have "fst (recommend_asanas M df p calls) = Inr []"
    by (simp add: sorted_reverse_def)
  then show ?thesis by (simp add: get_recommendations_fst)
qed

theorem no_survivor_is_success_witness:
  "fst (recommend_asanas example_env [back_row] example_profile []) = Inr []
   \<and> fst (get_recommendations example_env [back_row] example_profile [])
       = No_Recommendations [] no_poses_msg ''success''"
  using no_survivor_is_success
    [of example_profile example_env "''relax''" "''back pain''" "''anxiety''" "[back_row]" "[]"]
  by (simp add: eval_defs)

text \<open>
  C8. Assume the embedder is deterministic for a given string: what \<^verbatim>\<open>encode\<close> answers for
  a string is the same in every state of the model. Then a call leaves the data frame as
  it was, and a second call with the same profile, made in the state the first call has
  left behind, returns what the first call returned, for \<^const>\<open>recommend_asanas_st\<close> and
  for the endpoint.
\<close>

theorem deterministic_embedder_same_output:
  assumes det: "\<forall>s t x. fst (encode_step Ms s x) = fst (encode_step Ms t x)"
  shows "data_frame (snd (recommend_asanas_st Ms p w)) = data_frame w
       \<and> fst (recommend_asanas_st Ms p (snd (recommend_asanas_st Ms p w)))
           = fst (recommend_asanas_st Ms p w)
       \<and> fst (get_recommendations_st Ms p (snd (get_recommendations_st Ms p w)))
           = fst (get_recommendations_st Ms p w)"
proof -
  let ?w' = "snd (recommend_asanas_st Ms p w)"
  have df: "data_frame ?w' = data_frame w" by (rule recommend_asanas_st_data_frame)
  have "fst (recommend_asanas_st Ms p ?w')
          = fst (recommend_asanas (env_at Ms (model_state w)) (data_frame ?w') p [])"
    by (rule recommend_asanas_st_fst[OF det])
  also have "\<dots> = fst (recommend_asanas (env_at Ms (model_state w)) (data_frame w) p [])"
    by (simp only: df)
  also have "\<dots> = fst (recommend_asanas_st Ms p w)"
    by (rule recommend_asanas_st_fst[OF det, symmetric])
  finally have same: "fst (recommend_asanas_st Ms p ?w') = fst (recommend_asanas_st Ms p w)" .
  then have "fst (get_recommendations_st Ms p (snd (get_recommendations_st Ms p w)))
           = fst (get_recommendations_st Ms p w)"
    by (simp add: get_recommendations_st_fst get_recommendations_st_snd)
  with df same show ?thesis by simp
qed

theorem deterministic_embedder_same_output_witness:
  "snd (recommend_asanas_st counting_model example_profile
          \<lparr>model_state = 0, data_frame = [example_row]\<rparr>)
     = \<lparr>model_state = 5, data_frame = [example_row]\<rparr>
   \<and> fst (recommend_asanas_st counting_model example_profile
          \<lparr>model_state = 5, data_frame = [example_row]\<rparr>)
     = fst (recommend_asanas_st counting_model example_profile
          \<lparr>model_state = 0, data_frame = [example_row]\<rparr>)
   \<and> fst (recommend_asanas_st counting_model example_profile
          \<lparr>model_state = 0, data_frame = [example_row]\<rparr>)
     = Inr [\<lparr>name = ''Balasana'', score = 0.2, benefits = ''calms mind'',
             contraindications = ''knee injury''\<rparr>]"
proof -
  have det: "\<forall>s t x. fst (encode_step counting_model s x) = fst (encode_step counting_model t x)"
    by (simp add: counting_model_def)
  have post: "snd (recommend_asanas_st counting_model example_profile
          \<lparr>model_state = 0, data_frame = [example_row]\<rparr>)
     = \<lparr>model_state = 5, data_frame = [example_row]\<rparr>"
    by (simp add: eval_st_defs)
  have first: "fst (recommend_asanas_st counting_model example_profile
          \<lparr>model_state = 0, data_frame = [example_row]\<rparr>)
     = Inr [\<lparr>name = ''Balasana'', score = 0.2, benefits = ''calms mind'',
             contraindications = ''knee injury''\<rparr>]"
    by (simp add: eval_st_defs)
  from deterministic_embedder_same_output[OF det, of example_profile
         "\<lparr>model_state = 0, data_frame = [example_row]\<rparr>"] post first
  show ?thesis by simp
qed

text \<open>
  C9. When two entries of the returned list have equal scores, the earlier one comes from
  a row of the catalog that stands before a row the later one comes from; and for every
  score, the returned entries with that score are, in their order, the first candidates
  with that score in catalog order.
\<close>

theorem ties_keep_catalog_order:
  assumes ok: "fst (recommend_asanas M df p calls) = Inr out"
    and pos: "out = as @ a # bs @ b # cs"
    and tie: "score a = score b"
  shows "\<exists>g ph m xs r1 ys r2 zs.
           encode M (join '' '' (goals p)) = Inr g
         \<and> encode M (join '' '' (physical_issues p)) = Inr ph
         \<and> encode M (join '' '' (mental_issues p)) = Inr m
         \<and> df = xs @ r1 # ys @ r2 # zs
         \<and> row_candidate M p
             \<lparr>goals_emb = g, physical_issues_emb = ph, mental_issues_emb = m\<rparr> r1 = Some a
         \<and> row_candidate M p
             \<lparr>goals_emb = g, physical_issues_emb = ph, mental_issues_emb = m\<rparr> r2 = Some b
         \<and> (\<forall>k. prefix (filter (\<lambda>y. score y = k) out)
                  (filter (\<lambda>y. score y = k)
                     (candidates M p
                        \<lparr>goals_emb = g, physical_issues_emb = ph, mental_issues_emb = m\<rparr> df)))"
proof -
  from ok obtain g ph m where
    e: "encode M (join '' '' (goals p)) = Inr g"
       "encode M (join '' '' (physical_issues p)) = Inr ph"
       "encode M (join '' '' (mental_issues p)) = Inr m"
    and out: "out = take 10 (sorted_reverse score
             (candidates M p \<lparr>goals_emb = g, physical_issues_emb = ph, mental_issues_emb = m\<rparr> df))"
    by (rule recommend_asanas_cases)
  let ?ue = "\<lparr>goals_emb = g, physical_issues_emb = ph, mental_issues_emb = m\<rparr>"
  let ?cands = "candidates M p ?ue df"
  let ?P = "\<lambda>y. score y = score a"
  have pre: "prefix (filter (\<lambda>y. score y = k) out) (filter (\<lambda>y. score y = k) ?cands)" for k
    unfolding out by (rule stable_prefix)
  from pre[of "score a"] obtain tl where
    "filter ?P ?cands = filter ?P out @ tl"
    by (auto simp: prefix_def)
  with pos tie have
    "filter ?P ?cands = filter ?P as @ a # (filter ?P bs @ b # filter ?P cs @ tl)"
    by simp
  from filter_eq_append_Cons[OF this] obtain c1 c2 where
    c12: "?cands = c1 @ a # c2" and c2: "filter ?P c2 = filter ?P bs @ b # filter ?P cs @ tl"
    by blast
  from filter_eq_append_Cons[OF c2] obtain c21 c22 where c2': "c2 = c21 @ b # c22"
    by blast
  from c12 have "List.map_filter (row_candidate M p ?ue) df = c1 @ a # c2"
    by (simp add: candidates_def)
  from map_filter_eq_append_Cons[OF this] obtain xs r1 d2 where
    d: "df = xs @ r1 # d2" and r1: "row_candidate M p ?ue r1 = Some a"
    and d2: "List.map_filter (row_candidate M p ?ue) d2 = c2"
    by blast
  from d2 c2' have "List.map_filter (row_candidate M p ?ue) d2 = c21 @ b # c22" by simp
  from map_filter_eq_append_Cons[OF this] obtain ys r2 zs where
    d2': "d2 = ys @ r2 # zs" and r2: "row_candidate M p ?ue r2 = Some b"
    by blast
  from d d2' have "df = xs @ r1 # ys @ r2 # zs" by simp
  with e r1 r2 pre show ?thesis by blast
qed

theorem ties_keep_catalog_order_witness:
  "fst (recommend_asanas example_env
          [spine_row, example_row, back_row, malformed_row, calm_row] example_profile [])
     = Inr ([] @ \<lparr>name = ''Balasana'', score = 0.2, benefits = ''calms mind'',
                   contraindications = ''knee injury''\<rparr>
               # [] @ \<lparr>name = ''Sukhasana'', score = 0.2, benefits = ''calms mind'',
                   contraindications = ''Neck strain''\<rparr>
               # [\<lparr>name = ''Bhujangasana'', score = 0.1, benefits = ''stretches spine'',
                   contraindications = ''pregnancy''\<rparr>])
   \<and> (\<exists>xs r1 ys r2 zs.
         [spine_row, example_row, back_row, malformed_row, calm_row] = xs @ r1 # ys @ r2 # zs
       \<and> row_candidate example_env example_profile
           \<lparr>goals_emb = ''relax'', physical_issues_emb = ''back pain'',
            mental_issues_emb = ''anxiety''\<rparr> r1
           = Some \<lparr>name = ''Balasana'', score = 0.2, benefits = ''calms mind'',
                   contraindications = ''knee injury''\<rparr>
       \<and> row_candidate example_env example_profile
           \<lparr>goals_emb = ''relax'', physical_issues_emb = ''back pain'',
            mental_issues_emb = ''anxiety''\<rparr> r2
           = Some \<lparr>name = ''Sukhasana'', score = 0.2, benefits = ''calms mind'',
                   contraindications = ''Neck strain''\<rparr>)"
proof -
  have ok: "fst (recommend_asanas example_env
          [spine_row, example_row, back_row, malformed_row, calm_row] example_profile [])
     = Inr ([] @ \<lparr>name = ''Balasana'', score = 0.2, benefits = ''calms mind'',
                   contraindications = ''knee injury''\<rparr>
               # [] @ \<lparr>name = ''Sukhasana'', score = 0.2, benefits = ''calms mind'',
                   contraindications = ''Neck strain''\<rparr>
               # [\<lparr>name = ''Bhujangasana'', score = 0.1, benefits = ''stretches spine'',
                   contraindications = ''pregnancy''\<rparr>])"
    using example_catalog_output by simp
  have tie: "score \<lparr>name = ''Balasana'', score = 0.2, benefits = ''calms mind'',
                   contraindications = ''knee injury''\<rparr>
           = score \<lparr>name = ''Sukhasana'', score = 0.2, benefits = ''calms mind'',
                   contraindications = ''Neck strain''\<rparr>"
    by simp
  from ties_keep_catalog_order[OF ok refl tie] obtain g ph m xs r1 ys r2 zs where
    e: "encode example_env (join '' '' (goals example_profile)) = Inr g"
       "encode example_env (join '' '' (physical_issues example_profile)) = Inr ph"
       "encode example_env (join '' '' (mental_issues example_profile)) = Inr m"
    and d: "[spine_row, example_row, back_row, malformed_row, calm_row] = xs @ r1 # ys @ r2 # zs"
    and r: "row_candidate example_env example_profile
              \<lparr>goals_emb = g, physical_issues_emb = ph, mental_issues_emb = m\<rparr> r1
            = Some \<lparr>name = ''Balasana'', score = 0.2, benefits = ''calms mind'',
                     contraindications = ''knee injury''\<rparr>"
           "row_candidate example_env example_profile
              \<lparr>goals_emb = g, physical_issues_emb = ph, mental_issues_emb = m\<rparr> r2
            = Some \<lparr>name = ''Sukhasana'', score = 0.2, benefits = ''calms mind'',
                     contraindications = ''Neck strain''\<rparr>"
    by blast
  from e have "g = ''relax''" "ph = ''back pain''" "m = ''anxiety''"
    by (auto simp: example_env_def example_profile_def)
  with d r ok show ?thesis by blast
qed

text \<open>
  C10. For a valid profile whose three query embeddings are derived and whose
  \<open>physical_issues\<close> or \<open>mental_issues\<close> contain the empty string: the empty string passes
  the substring test against every contraindications text, no row appends a
  recommendation, \<^const>\<open>recommend_asanas\<close> returns the empty list, and the endpoint
  answers with status \<open>success\<close>.
\<close>

theorem empty_phrase_excludes_everything:
  assumes "goals p \<noteq> []" "physical_issues p \<noteq> []" "mental_issues p \<noteq> []"
    and "encode M (join '' '' (goals p)) = Inr g"
    and "encode M (join '' '' (physical_issues p)) = Inr ph"
    and "encode M (join '' '' (mental_issues p)) = Inr m"
    and empty: "'''' \<in> set (physical_issues p @ mental_issues p)"
  shows "str_in (lower '''') (lower (Contraindications r))
       \<and> (\<forall>calls' rec. fst (row_body M p ue r calls') \<noteq> Inr (Some rec))
       \<and> candidates M p \<lparr>goals_emb = g, physical_issues_emb = ph, mental_issues_emb = m\<rparr> df = []
       \<and> fst (recommend_asanas M df p calls) = Inr []
       \<and> fst (get_recommendations M df p calls) = No_Recommendations [] no_poses_msg ''success''"
proof -
  let ?ue = "\<lparr>goals_emb = g, physical_issues_emb = ph, mental_issues_emb = m\<rparr>"
  have lex: "lexical_match (lower '''') r'" for r' :: "'a row"
    by (simp add: lexical_match_def lower_def str_in_Nil)
  have nb: "fst (row_body M p ue' r' calls') \<noteq> Inr (Some rec)" for ue' r' calls' rec
    by (rule lexical_match_no_candidate[OF empty lex])
  then have "\<forall>r\<in>set df. row_candidate M p ?ue r = None"
    by (auto simp: row_candidate_def split: sum.splits option.splits)
  then have c: "candidates M p ?ue df = []" by (rule candidates_empty)
  moreover have "fst (recommend_asanas M df p calls) =
              Inr (take 10 (sorted_reverse score (candidates M p ?ue df)))"
    by (rule recommend_asanas_ok) fact+
  ultimately have r: "fst (recommend_asanas M df p calls) = Inr []"
    by (simp add: sorted_reverse_def)
  then have "fst (get_recommendations M df p calls) = No_Recommendations [] no_poses_msg ''success''"
    by (simp add: get_recommendations_fst)
  with lex[of r] nb c r show ?thesis by (simp add: lexical_match_def)
qed

theorem empty_phrase_excludes_everything_witness:
  "str_in (lower '''') (lower (Contraindications example_row))
   \<and> fst (recommend_asanas example_env [example_row, spine_row]
            (example_profile\<lparr>mental_issues := [''anxiety'', '''']\<rparr>) []) = Inr []
   \<and> fst (get_recommendations example_env [example_row, spine_row]
            (example_profile\<lparr>mental_issues := [''anxiety'', '''']\<rparr>) [])
       = No_Recommendations [] no_poses_msg ''success''"
  using empty_phrase_excludes_everything
    [of "example_profile\<lparr>mental_issues := [''anxiety'', '''']\<rparr>" example_env
        "''relax''" "''back pain''" "''anxiety ''" example_row
        "\<lparr>goals_emb = ''relax'', physical_issues_emb = ''back pain'',
          mental_issues_emb = ''anxiety ''\<rparr>" "[example_row, spine_row]" "[]"]
  by (simp add: example_defs)


end
